theory Spec2Isabelle
  imports Main
begin

section \<open>Errors\<close>

text \<open>
  The Go code returns values of the interface \<open>error\<close>. The service packages declare string
  types (\<open>type LinkServiceError string\<close> and its siblings) whose constants are the sentinel
  errors; gorm and the repositories package export sentinels of their own; the rest is
  built with \<open>errors.New\<close> and \<open>fmt.Errorf\<close> with one \<open>%w\<close> verb. The Turkish
  messages are written without their diacritics.
\<close>

datatype error =
    ErrRecordNotFound
  | ErrDuplicatedKey
  | ErrNotFound
  | DriverError string
  | LinkServiceError string
  | AppointmentServiceError string
  | CardServiceError string
  | FormServiceError string
  | InvitationServiceError string
  | ErrorsNew string
  | Errorf string error string
  | Panic string

text \<open>
  \<open>ErrRecordNotFound\<close> and \<open>ErrDuplicatedKey\<close> are gorm's, \<open>ErrNotFound\<close> is
  \<open>repositories.ErrNotFound\<close>, \<open>DriverError\<close> is what the database driver reports with
  its text, \<open>Errorf pre e post\<close> is \<open>fmt.Errorf\<close> wrapping \<open>e\<close> between two pieces of
  text, and \<open>Panic\<close> is a run-time panic of Go.
\<close>

fun Error :: "error \<Rightarrow> string" where
  "Error ErrRecordNotFound = ''record not found''"
| "Error ErrDuplicatedKey = ''duplicated key not allowed''"
| "Error ErrNotFound = ''kayit bulunamadi''"
| "Error (DriverError s) = s"
| "Error (LinkServiceError s) = s"
| "Error (AppointmentServiceError s) = s"
| "Error (CardServiceError s) = s"
| "Error (FormServiceError s) = s"
| "Error (InvitationServiceError s) = s"
| "Error (ErrorsNew s) = s"
| "Error (Errorf pre e post) = pre @ Error e @ post"
| "Error (Panic s) = s"

fun errors_Is :: "error \<Rightarrow> error \<Rightarrow> bool" where
  "errors_Is (Errorf pre e post) target = (Errorf pre e post = target \<or> errors_Is e target)"
| "errors_Is e target = (e = target)"

fun HasPrefix :: "string \<Rightarrow> string \<Rightarrow> bool" where
  "HasPrefix s [] = True"
| "HasPrefix [] (p # ps) = False"
| "HasPrefix (c # cs) (p # ps) = (c = p \<and> HasPrefix cs ps)"

fun strings_Contains :: "string \<Rightarrow> string \<Rightarrow> bool" where
  "strings_Contains [] substr = (substr = [])"
| "strings_Contains (c # cs) substr = (HasPrefix (c # cs) substr \<or> strings_Contains cs substr)"

definition ErrLinkNotFound :: error where
  "ErrLinkNotFound = LinkServiceError ''link bulunamadi''"

definition ErrLinkCreationFailedServ :: error where
  "ErrLinkCreationFailedServ = LinkServiceError ''link olusturulamadi''"

definition ErrLinkKeyGenerationFailed :: error where
  "ErrLinkKeyGenerationFailed = LinkServiceError ''benzersiz link anahtari uretilemedi''"

definition ErrLinkUpdateFailedServ :: error where
  "ErrLinkUpdateFailedServ = LinkServiceError ''link guncellenemedi''"

definition ErrLinkInvalidInput :: error where
  "ErrLinkInvalidInput = LinkServiceError ''gecersiz link girdisi''"

section \<open>The key generator\<close>

text \<open>
  \<open>models/link.go\<close>: \<open>generateSecureRandomStringForLink\<close> fills a byte slice of the asked
  length, one index into \<open>charsetForLink\<close> per byte, each index from
  \<open>rand.Int(rand.Reader, max)\<close> with \<open>max = len(charsetForLink)\<close>.

  The entropy source is a list of what successive reads deliver: \<open>Some v\<close> is a candidate
  value, \<open>None\<close> a failed read, and a list at its end fails as well. \<open>rand.Int\<close> of the Go
  library samples by rejection: it reads candidates until one is below \<open>max\<close> and returns
  the read error when a read fails.
\<close>

definition charsetForLink :: string where
  "charsetForLink = ''abcdefghijklmnopqrstuvwxyzABCDEFGHIJKLMNOPQRSTUVWXYZ0123456789''"

type_synonym reader = "nat option list"

fun rand_Int :: "reader \<Rightarrow> nat \<Rightarrow> (error + nat) \<times> reader" where
  "rand_Int [] mx = (Inl (ErrorsNew ''unexpected EOF''), [])"
| "rand_Int (None # r) mx = (Inl (ErrorsNew ''entropy source read failed''), r)"
| "rand_Int (Some v # r) mx = (if v < mx then (Inr v, r) else rand_Int r mx)"

text \<open>Indexing a Go string panics outside its bounds.\<close>

definition index_string :: "string \<Rightarrow> nat \<Rightarrow> error + char" where
  "index_string s i = (if i < length s then Inr (s ! i) else Inl (Panic ''index out of range''))"

text \<open>
  The loop \<open>for i := range b\<close>: \<open>fill n\<close> is the rest of the loop with \<open>n\<close> bytes still to
  write; the byte written first is the first character of the result.
\<close>

fun fill :: "nat \<Rightarrow> reader \<Rightarrow> (error + string) \<times> reader" where
  "fill 0 r = (Inr [], r)"
| "fill (Suc n) r =
     (case rand_Int r (length charsetForLink) of
        (Inl err, r') \<Rightarrow> (Inl (Errorf ''random index generation failed: '' err []), r')
      | (Inr randIndex, r') \<Rightarrow>
          (case index_string charsetForLink randIndex of
             Inl p \<Rightarrow> (Inl p, r')
           | Inr c \<Rightarrow>
               (case fill n r' of
                  (Inl e, r'') \<Rightarrow> (Inl e, r'')
                | (Inr s, r'') \<Rightarrow> (Inr (c # s), r''))))"

definition generateSecureRandomStringForLink :: "int \<Rightarrow> reader \<Rightarrow> (error + string) \<times> reader" where
  "generateSecureRandomStringForLink len r =
     (if len \<le> 0 then (Inl (ErrorsNew ''length must be positive''), r)
      else fill (nat len) r)"

text \<open>
  What a source delivers before it fails: the candidates below 62 that come before the
  first failed read or the end of the list.
\<close>

fun delivered :: "reader \<Rightarrow> nat list" where
  "delivered [] = []"
| "delivered (None # r) = []"
| "delivered (Some v # r) = (if v < 62 then v # delivered r else delivered r)"

section \<open>The data model\<close>

text \<open>
  \<open>BaseModel\<close> is embedded in every model struct; its declaration is not among the files
  at hand, the comment in \<open>models/invitation_rsvp.go\<close> lists its fields. The model keeps
  the identity and the soft-delete stamp. Go's \<open>uint\<close> is \<open>nat\<close> here: identifiers are
  only compared, with each other and with zero. Instants of time are natural numbers.
\<close>

record BaseModel =
  ID :: nat
  DeletedAt :: "nat option"

record Type = BaseModel +
  Name :: string

definition TypeNameAppointment :: string where "TypeNameAppointment = ''APPOINTMENT''"
definition TypeNameCard :: string where "TypeNameCard = ''CARD''"
definition TypeNameForm :: string where "TypeNameForm = ''FORM''"
definition TypeNameInvitation :: string where "TypeNameInvitation = ''INVITATION''"

record Link = BaseModel +
  Key :: string
  TypeID :: nat
  TargetID :: nat
  CreatorUserID :: nat
  Type :: Type

text \<open>
  The detail structs keep the fields that validation, the column types checked below and
  the public lookups read; descriptions, prices, colours, themes, the organisation and
  the like are left out. A detail row is stored with its owner, as \<open>Preload("Detail")\<close>
  returns it; the \<open>Link\<close> of a row is filled by the service that creates it and is
  not a column.
\<close>

record AppointmentDetail =
  Name :: string
  DurationMinutes :: int
  BufferTimeBefore :: int
  BufferTimeAfter :: int
  BookingLeadTime :: int
  BookingHorizonDays :: int
  ExpiresAt :: "nat option"

record Appointment = BaseModel +
  LinkID :: nat
  ProviderUserID :: nat
  IsEnabled :: bool
  Link :: Link
  Detail :: AppointmentDetail

record FormDetail =
  Title :: string
  SubmissionLimit :: "int option"
  LimitPerUser :: "int option"
  ClosesAt :: "nat option"
  PasswordHash :: string

record Form = BaseModel +
  LinkID :: nat
  CreatorUserID :: nat
  IsEnabled :: bool
  Link :: Link
  Detail :: FormDetail

record CardDetail =
  FirstName :: string
  LastName :: string

record Card = BaseModel +
  LinkID :: nat
  CreatorUserID :: nat
  IsEnabled :: bool
  Link :: Link
  Detail :: CardDetail

record InvitationDetail =
  Title :: string
  ExpiresAt :: "nat option"

record Invitation = BaseModel +
  LinkID :: nat
  CreatorUserID :: nat
  IsEnabled :: bool
  Link :: Link
  Detail :: InvitationDetail

definition zero_Type :: Type where
  "zero_Type = \<lparr>ID = 0, DeletedAt = None, Type.Name = []\<rparr>"

section \<open>The store\<close>

text \<open>
  The relational store behind gorm. A statement runs on a handle \<open>*gorm.DB\<close>: the
  connection pool \<open>configs.GetDB()\<close> (\<open>MainDB\<close>), where every statement commits by
  itself, or the handle that \<open>db.Transaction\<close> passes to its closure (\<open>TxDB\<close>). The
  writes of the open transaction are kept aside in \<open>pending\<close>; the transaction reads the
  committed tables with its own writes on top (read committed), a commit applies them,
  a rollback drops them. Sequences hand out identifiers and do not roll back.

  Of the constraints of the schema the model has the unique indexes, the primary keys
  and the \<open>varchar\<close> lengths of the gorm tags; foreign keys are not checked. A statement
  fails only on these constraints. \<open>stmts\<close> counts the statements sent to the store.
\<close>

datatype gorm_DB = MainDB | TxDB

datatype go_any = UintV nat | StrV string

record tables =
  links :: "Link list"
  types :: "Type list"
  appointments :: "Appointment list"
  forms :: "Form list"
  cards :: "Card list"
  invitations :: "Invitation list"

datatype db_write =
    InsertLink Link
  | UpdateLink nat "(string \<times> go_any) list"
  | InsertAppointment Appointment
  | InsertForm Form
  | InsertCard Card

record world =
  committed :: tables
  pending :: "db_write list"
  link_seq :: nat
  appointment_seq :: nat
  form_seq :: nat
  card_seq :: nat
  stmts :: nat
  rand_Reader :: reader
  clock :: nat
  TranslateError :: bool

text \<open>
  An assignment of \<open>Updates(map)\<close>: gorm finds the field by its Go name or by its column
  name. The links table of the model has the four columns below; any other name, or a
  value of the wrong type, is refused by the database.
\<close>

definition assign_column :: "string \<times> go_any \<Rightarrow> Link \<Rightarrow> error + Link" where
  "assign_column kv l =
     (case kv of (k, v) \<Rightarrow>
        if k = ''Key'' \<or> k = ''key'' then
          (case v of StrV s \<Rightarrow> Inr (l\<lparr>Key := s\<rparr>)
                   | UintV n \<Rightarrow> Inl (DriverError ''invalid value for column key''))
        else if k = ''TypeID'' \<or> k = ''type_id'' then
          (case v of UintV n \<Rightarrow> Inr (l\<lparr>TypeID := n\<rparr>)
                   | StrV s \<Rightarrow> Inl (DriverError ''invalid input syntax for type bigint''))
        else if k = ''TargetID'' \<or> k = ''target_id'' then
          (case v of UintV n \<Rightarrow> Inr (l\<lparr>TargetID := n\<rparr>)
                   | StrV s \<Rightarrow> Inl (DriverError ''invalid input syntax for type bigint''))
        else if k = ''CreatorUserID'' \<or> k = ''creator_user_id'' then
          (case v of UintV n \<Rightarrow> Inr (l\<lparr>Link.CreatorUserID := n\<rparr>)
                   | StrV s \<Rightarrow> Inl (DriverError ''invalid input syntax for type bigint''))
        else Inl (DriverError ''column does not exist''))"

fun assign_columns :: "(string \<times> go_any) list \<Rightarrow> Link \<Rightarrow> error + Link" where
  "assign_columns [] l = Inr l"
| "assign_columns (kv # kvs) l =
     (case assign_column kv l of Inl e \<Rightarrow> Inl e | Inr l' \<Rightarrow> assign_columns kvs l')"

definition update_row :: "nat \<Rightarrow> (string \<times> go_any) list \<Rightarrow> Link \<Rightarrow> Link" where
  "update_row id' data l =
     (if ID l = id' \<and> DeletedAt l = None
      then (case assign_columns data l of Inl e \<Rightarrow> l | Inr l' \<Rightarrow> l')
      else l)"

fun apply_write :: "db_write \<Rightarrow> tables \<Rightarrow> tables" where
  "apply_write (InsertLink l) t = t\<lparr>links := links t @ [l]\<rparr>"
| "apply_write (UpdateLink id' data) t = t\<lparr>links := map (update_row id' data) (links t)\<rparr>"
| "apply_write (InsertAppointment a) t = t\<lparr>appointments := appointments t @ [a]\<rparr>"
| "apply_write (InsertForm f) t = t\<lparr>forms := forms t @ [f]\<rparr>"
| "apply_write (InsertCard c) t = t\<lparr>cards := cards t @ [c]\<rparr>"

definition replay :: "db_write list \<Rightarrow> tables \<Rightarrow> tables" where
  "replay ws t = foldl (\<lambda>t' wr. apply_write wr t') t ws"

definition view :: "gorm_DB \<Rightarrow> world \<Rightarrow> tables" where
  "view db w = (case db of MainDB \<Rightarrow> committed w | TxDB \<Rightarrow> replay (pending w) (committed w))"

definition exec_write :: "gorm_DB \<Rightarrow> db_write \<Rightarrow> world \<Rightarrow> world" where
  "exec_write db wr w =
     (case db of
        MainDB \<Rightarrow> w\<lparr>committed := apply_write wr (committed w)\<rparr>
      | TxDB \<Rightarrow> w\<lparr>pending := pending w @ [wr]\<rparr>)"

definition sent :: "world \<Rightarrow> world" where
  "sent w = w\<lparr>stmts := Suc (stmts w)\<rparr>"

text \<open>
  \<open>db.Transaction(fc)\<close>: begin, run the closure on the transaction's handle, commit
  when it returns nil and roll back when it returns an error.
\<close>

definition Transaction :: "(gorm_DB \<Rightarrow> world \<Rightarrow> (error + 'a) \<times> world) \<Rightarrow> world \<Rightarrow> (error + 'a) \<times> world" where
  "Transaction fc w =
     (case fc TxDB (w\<lparr>pending := []\<rparr>) of
        (Inl err, w') \<Rightarrow> (Inl err, w'\<lparr>pending := []\<rparr>)
      | (Inr v, w') \<Rightarrow> (Inr v, w'\<lparr>committed := view TxDB w', pending := []\<rparr>))"

text \<open>
  The error of a unique index: gorm's own sentinel when the connection was opened with
  \<open>TranslateError\<close>, the text of the driver otherwise.
\<close>

definition unique_violation :: "world \<Rightarrow> error" where
  "unique_violation w =
     (if TranslateError w then ErrDuplicatedKey
      else DriverError ''ERROR: duplicate key value violates unique constraint (SQLSTATE 23505)'')"

definition value_too_long :: error where
  "value_too_long = DriverError ''ERROR: value too long for type character varying (SQLSTATE 22001)''"

text \<open>
  The request context: \<open>ctx.Value("tx")\<close> and \<open>ctx.Value(contextUserIDKey)\<close>.
\<close>

record Context =
  tx_value :: "gorm_DB option"
  user_id_value :: "nat option"

definition Background :: Context where
  "Background = \<lparr>tx_value = None, user_id_value = None\<rparr>"

definition contextWithUserID :: "Context \<Rightarrow> nat \<Rightarrow> Context" where
  "contextWithUserID ctx userID = ctx\<lparr>user_id_value := Some userID\<rparr>"

section \<open>The Link model and its hooks\<close>

definition zero_Link :: Link where
  "zero_Link = \<lparr>ID = 0, DeletedAt = None, Key = [], TypeID = 0, TargetID = 0,
     Link.CreatorUserID = 0, Type = zero_Type\<rparr>"

text \<open>
  \<open>tx.Model(&Link{}).Where("key = ?", k).Count(&count)\<close>. \<open>BaseModel\<close> carries gorm's
  soft-delete stamp, so a query on the model leaves out the rows stamped as deleted.
\<close>

definition count_links_where_key :: "gorm_DB \<Rightarrow> string \<Rightarrow> world \<Rightarrow> (error + nat) \<times> world" where
  "count_links_where_key tx k w =
     (Inr (length (filter (\<lambda>l. Key l = k \<and> DeletedAt l = None) (links (view tx w)))), sent w)"

definition count_links_where_id :: "gorm_DB \<Rightarrow> nat \<Rightarrow> world \<Rightarrow> (error + nat) \<times> world" where
  "count_links_where_id tx id' w =
     (Inr (length (filter (\<lambda>l. ID l = id' \<and> DeletedAt l = None) (links (view tx w)))), sent w)"

text \<open>
  \<open>Link.BeforeCreate\<close>. The loop \<open>for i := 0; i < maxAttempts; i++\<close> is
  \<open>BeforeCreate_attempts\<close>, whose first argument is the number of attempts still
  allowed, \<open>maxAttempts - i\<close>.
\<close>

definition maxAttempts :: nat where
  "maxAttempts = 10"

definition ErrMaxAttemptsExceeded :: error where
  "ErrMaxAttemptsExceeded =
     ErrorsNew ''benzersiz link anahtari uretilemedi (maksimum deneme asildi)''"

fun BeforeCreate_attempts :: "nat \<Rightarrow> gorm_DB \<Rightarrow> Link \<Rightarrow> world \<Rightarrow> (error + Link) \<times> world" where
  "BeforeCreate_attempts 0 tx l w = (Inl ErrMaxAttemptsExceeded, w)"
| "BeforeCreate_attempts (Suc n) tx l w =
     (case generateSecureRandomStringForLink 20 (rand_Reader w) of
        (Inl keyErr, r') \<Rightarrow>
          (Inl (Errorf ''guvenli anahtar uretilemedi: '' keyErr []), w\<lparr>rand_Reader := r'\<rparr>)
      | (Inr generatedKey, r') \<Rightarrow>
          (case count_links_where_key tx generatedKey (w\<lparr>rand_Reader := r'\<rparr>) of
             (Inl countErr, w') \<Rightarrow> (Inl (Errorf ''anahtar kontrol edilemedi: '' countErr []), w')
           | (Inr count, w') \<Rightarrow>
               if count = 0 then (Inr (l\<lparr>Key := generatedKey\<rparr>), w')
               else BeforeCreate_attempts n tx l w'))"

definition BeforeCreate :: "gorm_DB \<Rightarrow> Link \<Rightarrow> world \<Rightarrow> (error + Link) \<times> world" where
  "BeforeCreate tx l w =
     (if Key l \<noteq> [] then (Inr l, w) else BeforeCreate_attempts maxAttempts tx l w)"

text \<open>
  \<open>tx.Statement.Changed("Key")\<close> for \<open>Updates\<close> with a map, as gorm defines it: the
  value that the map gives for the field, under its Go name or else its column name,
  differs from the field of the statement's model. \<open>Link.BeforeUpdate\<close> refuses the
  update when it reports a change.
\<close>

definition Statement_Changed_Key :: "Link \<Rightarrow> (string \<times> go_any) list \<Rightarrow> bool" where
  "Statement_Changed_Key model dest =
     (case map_of dest ''Key'' of
        Some fv \<Rightarrow> fv \<noteq> StrV (Key model)
      | None \<Rightarrow>
          (case map_of dest ''key'' of
             Some fv \<Rightarrow> fv \<noteq> StrV (Key model)
           | None \<Rightarrow> False))"

definition ErrKeyImmutable :: error where
  "ErrKeyImmutable = ErrorsNew ''link anahtari (Key) degistirilemez''"

definition BeforeUpdate :: "Link \<Rightarrow> (string \<times> go_any) list \<Rightarrow> error option" where
  "BeforeUpdate l dest = (if Statement_Changed_Key l dest then Some ErrKeyImmutable else None)"

section \<open>Statements on the links table\<close>

text \<open>
  \<open>db.Create(link)\<close>: the hook runs first and its error stops the statement; the row
  takes its identifier from the sequence when the struct has none; the column is
  \<open>varchar(20)\<close> with \<open>uniqueIndex\<close>, and the index covers every row of the table, the
  soft-deleted ones too. The row is stored without the loaded \<open>Type\<close>.
\<close>

definition insert_link :: "gorm_DB \<Rightarrow> Link \<Rightarrow> world \<Rightarrow> (error + Link) \<times> world" where
  "insert_link tx l w =
     (let l' = (if ID l = 0 then l\<lparr>ID := Suc (link_seq w)\<rparr> else l);
          w1 = (if ID l = 0 then w\<lparr>link_seq := Suc (link_seq w)\<rparr> else w)
      in if 20 < length (Key l') then (Inl value_too_long, sent w1)
         else if \<exists>x \<in> set (links (view tx w1)). ID x = ID l' \<or> Key x = Key l'
         then (Inl (unique_violation w1), sent w1)
         else (Inr l', sent (exec_write tx (InsertLink (l'\<lparr>Type := zero_Type\<rparr>)) w1)))"

definition gorm_Create_Link :: "gorm_DB \<Rightarrow> Link \<Rightarrow> world \<Rightarrow> (error + Link) \<times> world" where
  "gorm_Create_Link tx l w =
     (case BeforeCreate tx l w of
        (Inl err, w1) \<Rightarrow> (Inl err, w1)
      | (Inr l1, w1) \<Rightarrow> insert_link tx l1 w1)"

text \<open>
  \<open>db.Model(&models.Link{}).Where("id = ?", id).Updates(data)\<close>: the hook is called on
  the model of the statement, which is the blank struct; the result is the number of
  rows affected.
\<close>

definition gorm_Updates_Link :: "gorm_DB \<Rightarrow> nat \<Rightarrow> (string \<times> go_any) list \<Rightarrow> world \<Rightarrow> (error + nat) \<times> world" where
  "gorm_Updates_Link tx id' data w =
     (case BeforeUpdate zero_Link data of
        Some err \<Rightarrow> (Inl err, w)
      | None \<Rightarrow>
          (case assign_columns data zero_Link of
             Inl err \<Rightarrow> (Inl err, sent w)
           | Inr probe \<Rightarrow>
               (let rows = filter (\<lambda>l. ID l = id' \<and> DeletedAt l = None) (links (view tx w))
                in if \<exists>l \<in> set rows. 20 < length (Key (update_row id' data l))
                   then (Inl value_too_long, sent w)
                   else if \<exists>l \<in> set rows. Key (update_row id' data l) \<noteq> Key l \<and>
                             (\<exists>x \<in> set (links (view tx w)).
                                ID x \<noteq> ID l \<and> Key x = Key (update_row id' data l))
                   then (Inl (unique_violation w), sent w)
                   else (Inr (length rows), sent (exec_write tx (UpdateLink id' data) w)))))"

text \<open>
  \<open>Preload("Type")\<close> and \<open>First\<close>: the first row that matches, then the row of the types
  table that its \<open>TypeID\<close> names (the zero struct when there is none).
\<close>

definition preload_Type :: "gorm_DB \<Rightarrow> Link \<Rightarrow> world \<Rightarrow> Link \<times> world" where
  "preload_Type tx l w =
     (l\<lparr>Type := (case filter (\<lambda>t. ID t = TypeID l \<and> DeletedAt t = None) (types (view tx w)) of
                    [] \<Rightarrow> zero_Type
                  | t # ts \<Rightarrow> t)\<rparr>,
      sent w)"

section \<open>LinkRepository\<close>

record LinkRepository =
  db :: gorm_DB

definition NewLinkRepository :: LinkRepository where
  "NewLinkRepository = \<lparr>db = MainDB\<rparr>"

definition NewLinkRepositoryTx :: "gorm_DB \<Rightarrow> LinkRepository" where
  "NewLinkRepositoryTx tx = \<lparr>db = tx\<rparr>"

definition getDB :: "LinkRepository \<Rightarrow> Context \<Rightarrow> gorm_DB" where
  "getDB r ctx = (case tx_value ctx of Some tx \<Rightarrow> tx | None \<Rightarrow> db r)"

text \<open>
  \<open>Create\<close> writes the identifier and the key into the struct it was given; the model
  returns the struct. The pointer is never nil here.
\<close>

definition LinkRepository_Create :: "LinkRepository \<Rightarrow> Context \<Rightarrow> Link \<Rightarrow> world \<Rightarrow> (error + Link) \<times> world" where
  "LinkRepository_Create r ctx link w = gorm_Create_Link (getDB r ctx) link w"

definition LinkRepository_FindByKey :: "LinkRepository \<Rightarrow> Context \<Rightarrow> string \<Rightarrow> world \<Rightarrow> (error + Link) \<times> world" where
  "LinkRepository_FindByKey r ctx key w =
     (if key = [] then (Inl (ErrorsNew ''aranacak link keyi bos olamaz''), w)
      else
        (case filter (\<lambda>l. Key l = key \<and> DeletedAt l = None) (links (view (getDB r ctx) w)) of
           [] \<Rightarrow> (Inl ErrRecordNotFound, sent w)
         | l # ls \<Rightarrow>
             (case preload_Type (getDB r ctx) l (sent w) of (link, w') \<Rightarrow> (Inr link, w'))))"

definition LinkRepository_Update :: "LinkRepository \<Rightarrow> Context \<Rightarrow> nat \<Rightarrow> (string \<times> go_any) list \<Rightarrow> nat \<Rightarrow> world \<Rightarrow> error option \<times> world" where
  "LinkRepository_Update r ctx id' data updatedByUserID w =
     (if id' = 0 then (Some (ErrorsNew ''guncellenecek link IDsi gecersiz''), w)
      else if length data = 0 then (Some (ErrorsNew ''guncellenecek veri bos olamaz''), w)
      else
        (let tx = getDB r (contextWithUserID ctx updatedByUserID)
         in case gorm_Updates_Link tx id' data w of
              (Inl err, w1) \<Rightarrow> (Some err, w1)
            | (Inr RowsAffected, w1) \<Rightarrow>
                if RowsAffected = 0 then
                  (case count_links_where_id tx id' w1 of
                     (Inl countErr, w2) \<Rightarrow> (None, w2)
                   | (Inr exists, w2) \<Rightarrow>
                       if exists = 0 then (Some ErrRecordNotFound, w2) else (None, w2))
                else (None, w1)))"

section \<open>LinkService\<close>

record LinkService =
  repo :: LinkRepository

definition NewLinkService :: LinkService where
  "NewLinkService = \<lparr>repo = NewLinkRepository\<rparr>"

definition CreateLink :: "LinkService \<Rightarrow> Context \<Rightarrow> nat \<Rightarrow> nat \<Rightarrow> world \<Rightarrow> (error + Link) \<times> world" where
  "CreateLink s ctx creatorUserID typeID w =
     (if typeID = 0 \<or> creatorUserID = 0
      then (Inl (Errorf [] ErrLinkInvalidInput '': gecersiz typeID veya creatorUserID''), w)
      else
        (case LinkRepository_Create (repo s) (contextWithUserID ctx creatorUserID)
                (zero_Link\<lparr>TypeID := typeID, Link.CreatorUserID := creatorUserID\<rparr>) w of
           (Inl err, w') \<Rightarrow>
             if errors_Is err ErrDuplicatedKey \<or>
                strings_Contains (Error err) ''duplicate key value violates unique constraint''
             then (Inl ErrLinkKeyGenerationFailed, w')
             else (Inl ErrLinkCreationFailedServ, w')
         | (Inr link, w') \<Rightarrow> (Inr link, w')))"

definition GetLinkByKey :: "LinkService \<Rightarrow> Context \<Rightarrow> string \<Rightarrow> world \<Rightarrow> (error + Link) \<times> world" where
  "GetLinkByKey s ctx key w =
     (case LinkRepository_FindByKey (repo s) ctx key w of
        (Inl err, w') \<Rightarrow>
          if errors_Is err ErrRecordNotFound then (Inl ErrLinkNotFound, w') else (Inl err, w')
      | (Inr link, w') \<Rightarrow> (Inr link, w'))"

definition UpdateLinkTarget :: "LinkService \<Rightarrow> Context \<Rightarrow> nat \<Rightarrow> nat \<Rightarrow> nat \<Rightarrow> world \<Rightarrow> error option \<times> world" where
  "UpdateLinkTarget s ctx updatingUserID linkID targetID w =
     (if linkID = 0 \<or> targetID = 0 \<or> updatingUserID = 0
      then (Some (Errorf [] ErrLinkInvalidInput '': gecersiz linkID, targetID veya updatingUserID''), w)
      else
        (case LinkRepository_Update (repo s) ctx linkID [(''target_id'', UintV targetID)] updatingUserID w of
           (Some err, w') \<Rightarrow>
             if errors_Is err ErrRecordNotFound then (Some ErrLinkNotFound, w')
             else (Some ErrLinkUpdateFailedServ, w')
         | (None, w') \<Rightarrow> (None, w')))"

section \<open>Collaborators that are not among the files at hand\<close>

text \<open>
  Modelled from the spec: the type service and the type repository
  (\<open>typeService.GetTypeByName\<close>, \<open>typeRepo.FindByName\<close>) are missing. The spec has Type as
  "a small static lookup table mapping a name to an ID, seeded once at bootstrap,
  read-only thereafter": the lookup returns the row of that name and fails when there is
  none.
\<close>

definition GetTypeByName :: "string \<Rightarrow> world \<Rightarrow> (error + Type) \<times> world" where
  "GetTypeByName name w =
     (case filter (\<lambda>t. Type.Name t = name \<and> DeletedAt t = None) (types (committed w)) of
        [] \<Rightarrow> (Inl ErrRecordNotFound, sent w)
      | t # ts \<Rightarrow> (Inr t, sent w))"

text \<open>
  Modelled from the spec: \<open>utils.GenerateSecureRandomString\<close>, which the card service calls,
  is missing. The spec knows one key generator (4.1): "a string of exactly length
  characters, each drawn from a 62-character alphanumeric alphabet, using a
  cryptographically secure random source", failing when the source fails. It is the
  generator of the Link model.
\<close>

definition GenerateSecureRandomString :: "int \<Rightarrow> reader \<Rightarrow> (error + string) \<times> reader" where
  "GenerateSecureRandomString len r = generateSecureRandomStringForLink len r"

section \<open>Appointments\<close>

definition ErrAppointmentNotFound :: error where
  "ErrAppointmentNotFound = AppointmentServiceError ''randevu hizmeti bulunamadi''"

definition ErrAppointmentCreationFailed :: error where
  "ErrAppointmentCreationFailed = AppointmentServiceError ''randevu hizmeti olusturulamadi''"

definition ErrAppInvalidInput :: error where
  "ErrAppInvalidInput = AppointmentServiceError ''gecersiz girdi verisi''"

definition ErrAppointmentNameRequired :: error where
  "ErrAppointmentNameRequired = AppointmentServiceError ''randevu hizmet adi zorunludur''"

definition ErrAppointmentDurationRequired :: error where
  "ErrAppointmentDurationRequired =
     AppointmentServiceError ''randevu suresi (dakika) pozitif bir sayi olmalidir''"

definition ErrAppGenericLinkError :: error where
  "ErrAppGenericLinkError = AppointmentServiceError ''link islemi sirasinda hata''"

definition ErrAppGenericTypeError :: error where
  "ErrAppGenericTypeError = AppointmentServiceError ''hizmet turu islemi sirasinda hata''"

record AppointmentRepository =
  db :: gorm_DB

definition NewAppointmentRepository :: AppointmentRepository where
  "NewAppointmentRepository = \<lparr>db = MainDB\<rparr>"

definition NewAppointmentRepositoryTx :: "gorm_DB \<Rightarrow> AppointmentRepository" where
  "NewAppointmentRepositoryTx tx = \<lparr>db = tx\<rparr>"

definition AppointmentRepository_getDB :: "AppointmentRepository \<Rightarrow> Context \<Rightarrow> gorm_DB" where
  "AppointmentRepository_getDB r ctx =
     (case tx_value ctx of Some tx \<Rightarrow> tx | None \<Rightarrow> AppointmentRepository.db r)"

text \<open>
  \<open>db.Create(appointment)\<close> writes the row and its detail: \<open>link_id\<close> has a unique index,
  \<open>Name\<close> is \<open>varchar(200)\<close>.
\<close>

definition insert_appointment :: "gorm_DB \<Rightarrow> Appointment \<Rightarrow> world \<Rightarrow> (error + Appointment) \<times> world" where
  "insert_appointment tx a w =
     (let a' = (if ID a = 0 then a\<lparr>ID := Suc (appointment_seq w)\<rparr> else a);
          w1 = (if ID a = 0 then w\<lparr>appointment_seq := Suc (appointment_seq w)\<rparr> else w)
      in if 200 < length (AppointmentDetail.Name (Appointment.Detail a'))
         then (Inl value_too_long, sent w1)
         else if \<exists>x \<in> set (appointments (view tx w1)).
                   ID x = ID a' \<or> Appointment.LinkID x = Appointment.LinkID a'
         then (Inl (unique_violation w1), sent w1)
         else (Inr a', sent (exec_write tx (InsertAppointment a') w1)))"

definition AppointmentRepository_Create :: "AppointmentRepository \<Rightarrow> Context \<Rightarrow> Appointment \<Rightarrow> world \<Rightarrow> (error + Appointment) \<times> world" where
  "AppointmentRepository_Create r ctx appointment w =
     (if Appointment.LinkID appointment = 0
      then (Inl (ErrorsNew ''gecersiz veya eksik link bilgisi olan randevu hizmeti olusturulamaz''), w)
      else insert_appointment (AppointmentRepository_getDB r ctx) appointment w)"

definition AppointmentRepository_FindByID :: "AppointmentRepository \<Rightarrow> Context \<Rightarrow> nat \<Rightarrow> world \<Rightarrow> (error + Appointment) \<times> world" where
  "AppointmentRepository_FindByID r ctx id' w =
     (if id' = 0 then (Inl (ErrorsNew ''gecersiz Appointment ID''), w)
      else
        (case filter (\<lambda>a. ID a = id' \<and> DeletedAt a = None)
                (appointments (view (AppointmentRepository_getDB r ctx) w)) of
           [] \<Rightarrow> (Inl ErrNotFound, sent w)
         | a # as \<Rightarrow> (Inr a, sent w)))"

record AppointmentService =
  repo :: AppointmentRepository
  linkService :: LinkService

definition NewAppointmentService :: AppointmentService where
  "NewAppointmentService = \<lparr>repo = NewAppointmentRepository, linkService = NewLinkService\<rparr>"

definition ValidateAppointmentDetail :: "AppointmentDetail \<Rightarrow> error option" where
  "ValidateAppointmentDetail detail =
     (if AppointmentDetail.Name detail = [] then Some ErrAppointmentNameRequired
      else if DurationMinutes detail \<le> 0 then Some ErrAppointmentDurationRequired
      else if BookingLeadTime detail < 0
      then Some (Errorf [] ErrAppInvalidInput '': rezervasyon oncesi sure negatif olamaz'')
      else if BookingHorizonDays detail \<le> 0
      then Some (Errorf [] ErrAppInvalidInput '': rezervasyon ufku pozitif olmali'')
      else if BufferTimeBefore detail < 0 \<or> BufferTimeAfter detail < 0
      then Some (Errorf [] ErrAppInvalidInput '': tampon sureler negatif olamaz'')
      else None)"

text \<open>
  The closure that \<open>CreateAppointment\<close> hands to \<open>s.db.Transaction\<close>. The link is made
  and its target written through \<open>s.linkService\<close>, the appointment through the
  repository built on \<open>tx\<close>.
\<close>

definition CreateAppointment_closure :: "AppointmentService \<Rightarrow> Context \<Rightarrow> nat \<Rightarrow> AppointmentDetail \<Rightarrow> Type \<Rightarrow> gorm_DB \<Rightarrow> world \<Rightarrow> (error + Appointment) \<times> world" where
  "CreateAppointment_closure s ctx providerUserID detailData appointmentType tx w =
     (let txCtx = contextWithUserID ctx providerUserID;
          appointmentRepoTx = NewAppointmentRepositoryTx tx
      in case CreateLink (linkService s) txCtx providerUserID (ID appointmentType) w of
           (Inl err, w1) \<Rightarrow> (Inl ErrAppGenericLinkError, w1)
         | (Inr link, w1) \<Rightarrow>
             (case AppointmentRepository_Create appointmentRepoTx txCtx
                     \<lparr>ID = 0, DeletedAt = None, Appointment.LinkID = ID link,
                      ProviderUserID = providerUserID, Appointment.IsEnabled = True,
                      Appointment.Link = zero_Link, Appointment.Detail = detailData\<rparr> w1 of
                (Inl err, w2) \<Rightarrow> (Inl ErrAppointmentCreationFailed, w2)
              | (Inr appointment, w2) \<Rightarrow>
                  (case UpdateLinkTarget (linkService s) txCtx providerUserID (ID link) (ID appointment) w2 of
                     (Some err, w3) \<Rightarrow> (Inl ErrAppGenericLinkError, w3)
                   | (None, w3) \<Rightarrow>
                       (Inr (appointment\<lparr>Appointment.Link :=
                               (if ID (Type link) = 0 then link\<lparr>Type := appointmentType\<rparr> else link)\<rparr>),
                        w3))))"

definition CreateAppointment :: "AppointmentService \<Rightarrow> Context \<Rightarrow> nat \<Rightarrow> AppointmentDetail \<Rightarrow> world \<Rightarrow> (error + Appointment) \<times> world" where
  "CreateAppointment s ctx providerUserID detailData w =
     (case ValidateAppointmentDetail detailData of
        Some err \<Rightarrow> (Inl (Errorf [] ErrAppInvalidInput ('': '' @ Error err)), w)
      | None \<Rightarrow>
          if providerUserID = 0
          then (Inl (Errorf [] ErrAppInvalidInput '': Gecersiz saglayici kullanici ID''), w)
          else
            (case GetTypeByName TypeNameAppointment w of
               (Inl err, w1) \<Rightarrow> (Inl ErrAppGenericTypeError, w1)
             | (Inr appointmentType, w1) \<Rightarrow>
                 Transaction (CreateAppointment_closure s ctx providerUserID detailData appointmentType) w1))"

definition GetAppointmentByKey :: "AppointmentService \<Rightarrow> Context \<Rightarrow> string \<Rightarrow> world \<Rightarrow> (error + Appointment) \<times> world" where
  "GetAppointmentByKey s ctx key w =
     (if key = [] then (Inl ErrAppointmentNotFound, w)
      else
        (case GetLinkByKey (linkService s) ctx key w of
           (Inl err, w1) \<Rightarrow>
             if errors_Is err ErrLinkNotFound then (Inl ErrAppointmentNotFound, w1)
             else (Inl err, w1)
         | (Inr link, w1) \<Rightarrow>
             if Type.Name (Type link) \<noteq> TypeNameAppointment then (Inl ErrAppointmentNotFound, w1)
             else
               (case AppointmentRepository_FindByID (AppointmentService.repo s) ctx (TargetID link) w1 of
                  (Inl err, w2) \<Rightarrow>
                    if errors_Is err ErrNotFound then (Inl ErrAppointmentNotFound, w2)
                    else (Inl err, w2)
                | (Inr appointment, w2) \<Rightarrow>
                    if \<not> Appointment.IsEnabled appointment then (Inl ErrAppointmentNotFound, w2)
                    else
                      (case AppointmentDetail.ExpiresAt (Appointment.Detail appointment) of
                         None \<Rightarrow> (Inr appointment, w2)
                       | Some expiresAt \<Rightarrow>
                           if expiresAt < clock w2 then (Inl ErrAppointmentNotFound, w2)
                           else (Inr appointment, w2)))))"

section \<open>Forms\<close>

definition ErrFormNotFound :: error where
  "ErrFormNotFound = FormServiceError ''form bulunamadi''"

definition ErrFormCreationFailed :: error where
  "ErrFormCreationFailed = FormServiceError ''form olusturulamadi''"

definition ErrFrmInvalidInput :: error where
  "ErrFrmInvalidInput = FormServiceError ''gecersiz girdi verisi''"

definition ErrFormTitleRequired :: error where
  "ErrFormTitleRequired = FormServiceError ''form basligi zorunludur''"

definition ErrFrmLinkCreationFailed :: error where
  "ErrFrmLinkCreationFailed = FormServiceError ''form icin link olusturulamadi''"

definition ErrFrmTypeNotFound :: error where
  "ErrFrmTypeNotFound = FormServiceError ''form hizmet turu bulunamadi''"

definition ErrFrmLinkUpdateFailed :: error where
  "ErrFrmLinkUpdateFailed = FormServiceError ''form linki guncellenemedi''"

definition ErrFrmPasswordHashingFailed :: error where
  "ErrFrmPasswordHashingFailed = FormServiceError ''form sifresi olusturulamadi''"

record FormRepository =
  db :: gorm_DB

definition NewFormRepository :: FormRepository where
  "NewFormRepository = \<lparr>db = MainDB\<rparr>"

definition NewFormRepositoryTx :: "gorm_DB \<Rightarrow> FormRepository" where
  "NewFormRepositoryTx tx = \<lparr>db = tx\<rparr>"

definition FormRepository_getDB :: "FormRepository \<Rightarrow> Context \<Rightarrow> gorm_DB" where
  "FormRepository_getDB r ctx =
     (case tx_value ctx of Some tx \<Rightarrow> tx | None \<Rightarrow> FormRepository.db r)"

text \<open>\<open>Title\<close> is \<open>varchar(255)\<close>, \<open>PasswordHash\<close> is \<open>varchar(255)\<close>, \<open>link_id\<close> is unique.\<close>

definition insert_form :: "gorm_DB \<Rightarrow> Form \<Rightarrow> world \<Rightarrow> (error + Form) \<times> world" where
  "insert_form tx f w =
     (let f' = (if ID f = 0 then f\<lparr>ID := Suc (form_seq w)\<rparr> else f);
          w1 = (if ID f = 0 then w\<lparr>form_seq := Suc (form_seq w)\<rparr> else w)
      in if 255 < length (FormDetail.Title (Form.Detail f')) \<or>
            255 < length (PasswordHash (Form.Detail f'))
         then (Inl value_too_long, sent w1)
         else if \<exists>x \<in> set (forms (view tx w1)). ID x = ID f' \<or> Form.LinkID x = Form.LinkID f'
         then (Inl (unique_violation w1), sent w1)
         else (Inr f', sent (exec_write tx (InsertForm f') w1)))"

definition FormRepository_Create :: "FormRepository \<Rightarrow> Context \<Rightarrow> Form \<Rightarrow> world \<Rightarrow> (error + Form) \<times> world" where
  "FormRepository_Create r ctx form w =
     (if Form.LinkID form = 0
      then (Inl (ErrorsNew ''gecersiz veya eksik link bilgisi olan form olusturulamaz''), w)
      else insert_form (FormRepository_getDB r ctx) form w)"

definition FormRepository_FindByID :: "FormRepository \<Rightarrow> Context \<Rightarrow> nat \<Rightarrow> world \<Rightarrow> (error + Form) \<times> world" where
  "FormRepository_FindByID r ctx id' w =
     (if id' = 0 then (Inl (ErrorsNew ''gecersiz Form ID''), w)
      else
        (case filter (\<lambda>f. ID f = id' \<and> DeletedAt f = None)
                (forms (view (FormRepository_getDB r ctx) w)) of
           [] \<Rightarrow> (Inl ErrNotFound, sent w)
         | f # fs \<Rightarrow> (Inr f, sent w)))"

record FormService =
  repo :: FormRepository
  linkService :: LinkService

definition NewFormService :: FormService where
  "NewFormService = \<lparr>repo = NewFormRepository, linkService = NewLinkService\<rparr>"

definition ValidateFormDetail :: "FormDetail \<Rightarrow> error option" where
  "ValidateFormDetail detail =
     (if FormDetail.Title detail = [] then Some ErrFormTitleRequired
      else if (case SubmissionLimit detail of None \<Rightarrow> False | Some n \<Rightarrow> n < 0)
      then Some (Errorf [] ErrFrmInvalidInput '': gonderim limiti negatif olamaz'')
      else if (case LimitPerUser detail of None \<Rightarrow> False | Some n \<Rightarrow> n < 0)
      then Some (Errorf [] ErrFrmInvalidInput '': kullanici basina limit negatif olamaz'')
      else None)"

text \<open>
  The closure of \<open>CreateForm\<close>: the link is made through \<open>s.linkService\<close>, the form and
  the target of the link are written through the repositories built on \<open>tx\<close>.
\<close>

definition CreateForm_closure :: "FormService \<Rightarrow> Context \<Rightarrow> nat \<Rightarrow> FormDetail \<Rightarrow> Type \<Rightarrow> gorm_DB \<Rightarrow> world \<Rightarrow> (error + Form) \<times> world" where
  "CreateForm_closure s ctx creatorUserID detailData formType tx w =
     (let txCtx = contextWithUserID ctx creatorUserID;
          linkRepoTx = NewLinkRepositoryTx tx;
          formRepoTx = NewFormRepositoryTx tx
      in case CreateLink (FormService.linkService s) txCtx creatorUserID (ID formType) w of
           (Inl err, w1) \<Rightarrow> (Inl ErrFrmLinkCreationFailed, w1)
         | (Inr link, w1) \<Rightarrow>
             (case FormRepository_Create formRepoTx txCtx
                     \<lparr>ID = 0, DeletedAt = None, Form.LinkID = ID link,
                      Form.CreatorUserID = creatorUserID, Form.IsEnabled = True,
                      Form.Link = zero_Link, Form.Detail = detailData\<rparr> w1 of
                (Inl err, w2) \<Rightarrow> (Inl ErrFormCreationFailed, w2)
              | (Inr form, w2) \<Rightarrow>
                  (case LinkRepository_Update linkRepoTx txCtx (ID link)
                          [(''target_id'', UintV (ID form))] creatorUserID w2 of
                     (Some err, w3) \<Rightarrow> (Inl ErrFrmLinkUpdateFailed, w3)
                   | (None, w3) \<Rightarrow>
                       (Inr (form\<lparr>Form.Link :=
                               (if ID (Type link) = 0 then link\<lparr>Type := formType\<rparr> else link)\<rparr>),
                        w3))))"

text \<open>
  \<open>CreateForm\<close> hashes a password that is given before it opens the transaction;
  \<open>bcrypt.GenerateFromPassword\<close> is the parameter \<open>bcrypt\<close>.
\<close>

definition CreateForm :: "(string \<Rightarrow> error + string) \<Rightarrow> FormService \<Rightarrow> Context \<Rightarrow> nat \<Rightarrow> FormDetail \<Rightarrow> world \<Rightarrow> (error + Form) \<times> world" where
  "CreateForm bcrypt s ctx creatorUserID detailData w =
     (case ValidateFormDetail detailData of
        Some err \<Rightarrow> (Inl (Errorf [] ErrFrmInvalidInput ('': '' @ Error err)), w)
      | None \<Rightarrow>
          if creatorUserID = 0
          then (Inl (Errorf [] ErrFrmInvalidInput '': Gecersiz olusturan kullanici ID''), w)
          else
            (case GetTypeByName TypeNameForm w of
               (Inl err, w1) \<Rightarrow> (Inl ErrFrmTypeNotFound, w1)
             | (Inr formType, w1) \<Rightarrow>
                 (case (if PasswordHash detailData \<noteq> []
                        then (case bcrypt (PasswordHash detailData) of
                                Inl hashErr \<Rightarrow> Inl ErrFrmPasswordHashingFailed
                              | Inr hashed \<Rightarrow> Inr (detailData\<lparr>PasswordHash := hashed\<rparr>))
                        else Inr detailData) of
                    Inl err \<Rightarrow> (Inl err, w1)
                  | Inr detailData' \<Rightarrow>
                      Transaction (CreateForm_closure s ctx creatorUserID detailData' formType) w1)))"

definition GetFormByKey :: "FormService \<Rightarrow> Context \<Rightarrow> string \<Rightarrow> world \<Rightarrow> (error + Form) \<times> world" where
  "GetFormByKey s ctx key w =
     (if key = [] then (Inl ErrFormNotFound, w)
      else
        (case GetLinkByKey (FormService.linkService s) ctx key w of
           (Inl err, w1) \<Rightarrow> (Inl ErrFormNotFound, w1)
         | (Inr link, w1) \<Rightarrow>
             if Type.Name (Type link) \<noteq> TypeNameForm then (Inl ErrFormNotFound, w1)
             else
               (case FormRepository_FindByID (FormService.repo s) ctx (TargetID link) w1 of
                  (Inl err, w2) \<Rightarrow> (Inl err, w2)
                | (Inr form, w2) \<Rightarrow>
                    if \<not> Form.IsEnabled form then (Inl ErrFormNotFound, w2)
                    else
                      (case ClosesAt (Form.Detail form) of
                         None \<Rightarrow> (Inr form, w2)
                       | Some closesAt \<Rightarrow>
                           if closesAt < clock w2 then (Inl ErrFormNotFound, w2)
                           else (Inr form, w2)))))"

section \<open>Invitations\<close>

definition ErrInvitationNotFound :: error where
  "ErrInvitationNotFound = InvitationServiceError ''davetiye bulunamadi''"

record InvitationRepository =
  db :: gorm_DB

definition NewInvitationRepository :: InvitationRepository where
  "NewInvitationRepository = \<lparr>db = MainDB\<rparr>"

definition InvitationRepository_getDB :: "InvitationRepository \<Rightarrow> Context \<Rightarrow> gorm_DB" where
  "InvitationRepository_getDB r ctx =
     (case tx_value ctx of Some tx \<Rightarrow> tx | None \<Rightarrow> InvitationRepository.db r)"

definition InvitationRepository_FindByID :: "InvitationRepository \<Rightarrow> Context \<Rightarrow> nat \<Rightarrow> world \<Rightarrow> (error + Invitation) \<times> world" where
  "InvitationRepository_FindByID r ctx id' w =
     (if id' = 0 then (Inl (ErrorsNew ''gecersiz Invitation ID''), w)
      else
        (case filter (\<lambda>i. ID i = id' \<and> DeletedAt i = None)
                (invitations (view (InvitationRepository_getDB r ctx) w)) of
           [] \<Rightarrow> (Inl ErrNotFound, sent w)
         | i # is \<Rightarrow> (Inr i, sent w)))"

record InvitationService =
  repo :: InvitationRepository
  linkService :: LinkService

definition NewInvitationService :: InvitationService where
  "NewInvitationService = \<lparr>repo = NewInvitationRepository, linkService = NewLinkService\<rparr>"

definition GetInvitationByKey :: "InvitationService \<Rightarrow> Context \<Rightarrow> string \<Rightarrow> world \<Rightarrow> (error + Invitation) \<times> world" where
  "GetInvitationByKey s ctx key w =
     (if key = [] then (Inl ErrInvitationNotFound, w)
      else
        (case GetLinkByKey (InvitationService.linkService s) ctx key w of
           (Inl err, w1) \<Rightarrow>
             if errors_Is err ErrLinkNotFound then (Inl ErrInvitationNotFound, w1)
             else (Inl err, w1)
         | (Inr link, w1) \<Rightarrow>
             if Type.Name (Type link) \<noteq> TypeNameInvitation then (Inl ErrInvitationNotFound, w1)
             else
               (case InvitationRepository_FindByID (InvitationService.repo s) ctx (TargetID link) w1 of
                  (Inl err, w2) \<Rightarrow>
                    if errors_Is err ErrNotFound then (Inl ErrInvitationNotFound, w2)
                    else (Inl err, w2)
                | (Inr invitation, w2) \<Rightarrow>
                    if \<not> Invitation.IsEnabled invitation then (Inl ErrInvitationNotFound, w2)
                    else
                      (case InvitationDetail.ExpiresAt (Invitation.Detail invitation) of
                         None \<Rightarrow> (Inr invitation, w2)
                       | Some expiresAt \<Rightarrow>
                           if expiresAt < clock w2 then (Inl ErrInvitationNotFound, w2)
                           else (Inr invitation, w2)))))"

section \<open>Cards\<close>

definition ErrCardNotFound :: error where
  "ErrCardNotFound = CardServiceError ''kartvizit bulunamadi''"

definition ErrCardCreationFailed :: error where
  "ErrCardCreationFailed = CardServiceError ''kartvizit olusturulamadi''"

definition ErrCrdInvalidInput :: error where
  "ErrCrdInvalidInput = CardServiceError ''gecersiz girdi verisi''"

definition ErrCardNameRequired :: error where
  "ErrCardNameRequired = CardServiceError ''isim ve soyisim zorunludur''"

definition ErrCrdLinkCreationFailed :: error where
  "ErrCrdLinkCreationFailed = CardServiceError ''kartvizit icin link olusturulamadi''"

definition ErrCrdTypeNotFound :: error where
  "ErrCrdTypeNotFound = CardServiceError ''kartvizit hizmet turu bulunamadi''"

definition ErrCrdLinkUpdateFailed :: error where
  "ErrCrdLinkUpdateFailed = CardServiceError ''kartvizit linki guncellenemedi''"

record CardRepository =
  base :: gorm_DB
  db :: gorm_DB

definition NewCardRepository :: CardRepository where
  "NewCardRepository = \<lparr>base = MainDB, db = MainDB\<rparr>"

definition NewCardRepositoryTx :: "gorm_DB \<Rightarrow> CardRepository" where
  "NewCardRepositoryTx tx = \<lparr>base = tx, db = tx\<rparr>"

text \<open>\<open>FirstName\<close> and \<open>LastName\<close> are \<open>varchar(100)\<close>, \<open>link_id\<close> is unique.\<close>

definition insert_card :: "gorm_DB \<Rightarrow> Card \<Rightarrow> world \<Rightarrow> (error + Card) \<times> world" where
  "insert_card tx c w =
     (let c' = (if ID c = 0 then c\<lparr>ID := Suc (card_seq w)\<rparr> else c);
          w1 = (if ID c = 0 then w\<lparr>card_seq := Suc (card_seq w)\<rparr> else w)
      in if 100 < length (FirstName (Card.Detail c')) \<or> 100 < length (LastName (Card.Detail c'))
         then (Inl value_too_long, sent w1)
         else if \<exists>x \<in> set (cards (view tx w1)). ID x = ID c' \<or> Card.LinkID x = Card.LinkID c'
         then (Inl (unique_violation w1), sent w1)
         else (Inr c', sent (exec_write tx (InsertCard c') w1)))"

text \<open>
  Modelled from the spec: \<open>BaseRepository\<close>, on which \<open>CardRepository.CreateCard\<close> rests, is
  missing. The spec's store operations are "each scoped to an ambient transaction if one
  is active for the calling request, otherwise the default connection": the insert runs
  on the handle found in the context, or else on the handle the repository was built
  with.
\<close>

definition CardRepository_CreateCard :: "CardRepository \<Rightarrow> Context \<Rightarrow> Card \<Rightarrow> world \<Rightarrow> (error + Card) \<times> world" where
  "CardRepository_CreateCard r ctx card' w =
     insert_card (case tx_value ctx of Some tx \<Rightarrow> tx | None \<Rightarrow> base r) card' w"

definition GetCardByID :: "CardRepository \<Rightarrow> nat \<Rightarrow> world \<Rightarrow> (error + Card) \<times> world" where
  "GetCardByID r id' w =
     (case filter (\<lambda>c. ID c = id' \<and> DeletedAt c = None) (cards (view (CardRepository.db r) w)) of
        [] \<Rightarrow> (Inl ErrNotFound, sent w)
      | c # cs \<Rightarrow> (Inr c, sent w))"

record CardService =
  repo :: CardRepository
  linkRepo :: LinkRepository

definition NewCardService :: CardService where
  "NewCardService = \<lparr>repo = NewCardRepository, linkRepo = NewLinkRepository\<rparr>"

definition ValidateCardDetail :: "CardDetail \<Rightarrow> error option" where
  "ValidateCardDetail detail =
     (if FirstName detail = [] \<or> LastName detail = [] then Some ErrCardNameRequired else None)"

text \<open>
  The key loop of \<open>CreateCard\<close>, \<open>for i := 0; i < maxKeyAttempts; i++\<close>, with the number
  of attempts still allowed as its first argument. It yields the value of \<open>linkKey\<close>
  when the loop is left, which is empty when no attempt found a free key, or the error
  of an early return.
\<close>

definition maxKeyAttempts :: nat where
  "maxKeyAttempts = 5"

fun CreateCard_keyLoop :: "nat \<Rightarrow> gorm_DB \<Rightarrow> world \<Rightarrow> (error + string) \<times> world" where
  "CreateCard_keyLoop 0 tx w = (Inr [], w)"
| "CreateCard_keyLoop (Suc n) tx w =
     (case GenerateSecureRandomString 20 (rand_Reader w) of
        (Inl keyErr, r') \<Rightarrow> (Inl ErrCrdLinkCreationFailed, w\<lparr>rand_Reader := r'\<rparr>)
      | (Inr keyAttempt, r') \<Rightarrow>
          (case count_links_where_key tx keyAttempt (w\<lparr>rand_Reader := r'\<rparr>) of
             (Inl countErr, w') \<Rightarrow> (Inl ErrCrdLinkCreationFailed, w')
           | (Inr count, w') \<Rightarrow>
               if count = 0 then (Inr keyAttempt, w') else CreateCard_keyLoop n tx w'))"

definition CreateCard_closure :: "CardService \<Rightarrow> Context \<Rightarrow> nat \<Rightarrow> CardDetail \<Rightarrow> Type \<Rightarrow> gorm_DB \<Rightarrow> world \<Rightarrow> (error + Card) \<times> world" where
  "CreateCard_closure s ctx creatorUserID detailData cardType tx w =
     (let txCtx = contextWithUserID ctx creatorUserID;
          linkRepoTx = NewLinkRepositoryTx tx;
          cardRepoTx = NewCardRepositoryTx tx
      in case CreateCard_keyLoop maxKeyAttempts tx w of
           (Inl err, w1) \<Rightarrow> (Inl err, w1)
         | (Inr linkKey, w1) \<Rightarrow>
             if linkKey = [] then (Inl ErrCrdLinkCreationFailed, w1)
             else
               (case LinkRepository_Create linkRepoTx txCtx
                       (zero_Link\<lparr>Key := linkKey, TypeID := ID cardType,
                                  Link.CreatorUserID := creatorUserID\<rparr>) w1 of
                  (Inl err, w2) \<Rightarrow> (Inl ErrCrdLinkCreationFailed, w2)
                | (Inr link, w2) \<Rightarrow>
                    (case CardRepository_CreateCard cardRepoTx txCtx
                            \<lparr>ID = 0, DeletedAt = None, Card.LinkID = ID link,
                             Card.CreatorUserID = creatorUserID, Card.IsEnabled = True,
                             Card.Link = zero_Link, Card.Detail = detailData\<rparr> w2 of
                       (Inl err, w3) \<Rightarrow> (Inl ErrCardCreationFailed, w3)
                     | (Inr card', w3) \<Rightarrow>
                         (case LinkRepository_Update linkRepoTx txCtx (ID link)
                                 [(''target_id'', UintV (ID card'))] creatorUserID w3 of
                            (Some err, w4) \<Rightarrow> (Inl ErrCrdLinkUpdateFailed, w4)
                          | (None, w4) \<Rightarrow>
                              (Inr (card'\<lparr>Card.Link := link\<lparr>Type := cardType\<rparr>\<rparr>), w4)))))"

definition CreateCard :: "CardService \<Rightarrow> Context \<Rightarrow> nat \<Rightarrow> CardDetail \<Rightarrow> world \<Rightarrow> (error + Card) \<times> world" where
  "CreateCard s ctx creatorUserID detailData w =
     (case ValidateCardDetail detailData of
        Some err \<Rightarrow> (Inl (Errorf [] ErrCrdInvalidInput ('': '' @ Error err)), w)
      | None \<Rightarrow>
          if creatorUserID = 0
          then (Inl (Errorf [] ErrCrdInvalidInput '': Gecersiz olusturan kullanici ID''), w)
          else
            (case GetTypeByName TypeNameCard w of
               (Inl err, w1) \<Rightarrow> (Inl ErrCrdTypeNotFound, w1)
             | (Inr cardType, w1) \<Rightarrow>
                 Transaction (CreateCard_closure s ctx creatorUserID detailData cardType) w1))"

definition GetCardByKey :: "CardService \<Rightarrow> Context \<Rightarrow> string \<Rightarrow> world \<Rightarrow> (error + Card) \<times> world" where
  "GetCardByKey s ctx key w =
     (if key = [] then (Inl ErrCardNotFound, w)
      else
        (case LinkRepository_FindByKey (linkRepo s) ctx key w of
           (Inl err, w1) \<Rightarrow>
             if errors_Is err ErrRecordNotFound then (Inl ErrCardNotFound, w1)
             else (Inl err, w1)
         | (Inr link, w1) \<Rightarrow>
             if Type.Name (Type link) \<noteq> TypeNameCard then (Inl ErrCardNotFound, w1)
             else
               (case GetCardByID (CardService.repo s) (TargetID link) w1 of
                  (Inl err, w2) \<Rightarrow>
                    if errors_Is err ErrNotFound then (Inl ErrCardNotFound, w2)
                    else (Inl err, w2)
                | (Inr card', w2) \<Rightarrow>
                    if \<not> Card.IsEnabled card' then (Inl ErrCardNotFound, w2)
                    else (Inr card', w2))))"

section \<open>The public handlers\<close>

text \<open>
  What a handler writes to the fiber context: a rendered view with its status and
  message, a plain string with its status, or a bare status. Both handlers are given
  the path segment \<open>c.Params("key")\<close> and the request context. The resource services
  are called with that context; \<open>h.invitationService.GetCardByKey\<close> of the source is the
  public lookup of the invitation service.
\<close>

datatype response = Render nat string string | SendString nat string | SendStatus nat

fun status :: "response \<Rightarrow> nat" where
  "status (Render code name message) = code"
| "status (SendString code body) = code"
| "status (SendStatus code) = code"

definition StatusOK :: nat where "StatusOK = 200"
definition StatusNotFound :: nat where "StatusNotFound = 404"
definition StatusInternalServerError :: nat where "StatusInternalServerError = 500"

record LinkHandler =
  linkService :: LinkService
  invitationService :: InvitationService
  appointmentService :: AppointmentService
  formService :: FormService
  cardService :: CardService

definition NewLinkHandler :: LinkHandler where
  "NewLinkHandler = \<lparr>linkService = NewLinkService, invitationService = NewInvitationService,
     appointmentService = NewAppointmentService, formService = NewFormService,
     cardService = NewCardService\<rparr>"

definition renderNotFound :: "string \<Rightarrow> response" where
  "renderNotFound message = Render StatusNotFound ''errors/404'' message"

definition renderError :: "string \<Rightarrow> response" where
  "renderError message = Render StatusInternalServerError ''errors/500'' message"

definition LinkHandler_HandleLink :: "LinkHandler \<Rightarrow> Context \<Rightarrow> string \<Rightarrow> world \<Rightarrow> response \<times> world" where
  "LinkHandler_HandleLink h ctx key w =
     (if length key \<noteq> 20 then (renderNotFound ''Gecersiz Link'', w)
      else
        (case GetLinkByKey (LinkHandler.linkService h) ctx key w of
           (Inl err, w1) \<Rightarrow>
             if errors_Is err ErrLinkNotFound then (renderNotFound ''Link Bulunamadi'', w1)
             else (renderError ''Link bilgileri alinirken bir sorun olustu.'', w1)
         | (Inr link, w1) \<Rightarrow>
             if Type.Name (Type link) = TypeNameInvitation then
               (case GetInvitationByKey (invitationService h) ctx key w1 of
                  (Inl invErr, w2) \<Rightarrow>
                    if errors_Is invErr ErrInvitationNotFound
                    then (renderNotFound ''Davetiye Bulunamadi'', w2)
                    else (renderError ''Davetiye yuklenirken bir sorun olustu.'', w2)
                | (Inr invitation, w2) \<Rightarrow> (Render StatusOK ''public/invitation_view'' [], w2))
             else if Type.Name (Type link) = TypeNameAppointment then
               (case GetAppointmentByKey (appointmentService h) ctx key w1 of
                  (Inl appErr, w2) \<Rightarrow>
                    if errors_Is appErr ErrAppointmentNotFound
                    then (renderNotFound ''Randevu Hizmeti Bulunamadi'', w2)
                    else (renderError ''Randevu hizmeti yuklenirken bir sorun olustu.'', w2)
                | (Inr appointment, w2) \<Rightarrow> (Render StatusOK ''public/appointment_booking'' [], w2))
             else if Type.Name (Type link) = TypeNameForm then
               (case GetFormByKey (formService h) ctx key w1 of
                  (Inl formErr, w2) \<Rightarrow>
                    if errors_Is formErr ErrFormNotFound
                    then (renderNotFound ''Form Bulunamadi'', w2)
                    else (renderError ''Form yuklenirken bir sorun olustu.'', w2)
                | (Inr form, w2) \<Rightarrow> (Render StatusOK ''public/form_fill'' [], w2))
             else if Type.Name (Type link) = TypeNameCard then
               (case GetCardByKey (cardService h) ctx key w1 of
                  (Inl cardErr, w2) \<Rightarrow>
                    if errors_Is cardErr ErrCardNotFound
                    then (renderNotFound ''Kartvizit Bulunamadi'', w2)
                    else (renderError ''Kartvizit yuklenirken bir sorun olustu.'', w2)
                | (Inr card', w2) \<Rightarrow> (Render StatusOK ''public/card_view'' [], w2))
             else (renderNotFound ''Gecersiz Link Turu'', w1)))"

definition PublicLinkHandler_HandleLink :: "LinkHandler \<Rightarrow> Context \<Rightarrow> string \<Rightarrow> world \<Rightarrow> response \<times> world" where
  "PublicLinkHandler_HandleLink h ctx key w =
     (if length key \<noteq> 20 then (SendString StatusNotFound ''Gecersiz link formati.'', w)
      else
        (case GetLinkByKey (LinkHandler.linkService h) ctx key w of
           (Inl err, w1) \<Rightarrow>
             if errors_Is err ErrLinkNotFound
             then (Render StatusNotFound ''errors/404'' ''Link Bulunamadi'', w1)
             else (SendString StatusInternalServerError ''Link bilgileri alinirken bir hata olustu.'', w1)
         | (Inr link, w1) \<Rightarrow>
             if Type.Name (Type link) = TypeNameInvitation then
               (case GetInvitationByKey (invitationService h) ctx key w1 of
                  (Inl invErr, w2) \<Rightarrow>
                    if errors_Is invErr ErrInvitationNotFound
                    then (Render StatusNotFound ''errors/404'' ''Davetiye Bulunamadi/Aktif Degil'', w2)
                    else (SendString StatusInternalServerError ''Davetiye yuklenirken hata.'', w2)
                | (Inr invitation, w2) \<Rightarrow> (Render StatusOK ''public/invitation_view'' [], w2))
             else if Type.Name (Type link) = TypeNameAppointment then
               (case GetAppointmentByKey (appointmentService h) ctx key w1 of
                  (Inl appErr, w2) \<Rightarrow> (SendStatus StatusNotFound, w2)
                | (Inr appointment, w2) \<Rightarrow> (Render StatusOK ''public/appointment_booking'' [], w2))
             else if Type.Name (Type link) = TypeNameForm then
               (case GetFormByKey (formService h) ctx key w1 of
                  (Inl formErr, w2) \<Rightarrow> (SendStatus StatusNotFound, w2)
                | (Inr form, w2) \<Rightarrow> (Render StatusOK ''public/form_fill'' [], w2))
             else if Type.Name (Type link) = TypeNameCard then
               (case GetCardByKey (cardService h) ctx key w1 of
                  (Inl cardErr, w2) \<Rightarrow> (SendStatus StatusNotFound, w2)
                | (Inr card', w2) \<Rightarrow> (Render StatusOK ''public/card_view'' [], w2))
             else (SendString StatusNotFound ''Gecersiz link turu.'', w1)))"


text \<open>What the existence check of the issuance reports for a key.\<close>

definition reported_present :: "gorm_DB \<Rightarrow> world \<Rightarrow> string \<Rightarrow> bool" where
  "reported_present tx w k =
     (case fst (count_links_where_key tx k w) of Inl err \<Rightarrow> False | Inr count \<Rightarrow> 0 < count)"

section \<open>A seeded store\<close>

text \<open>
  \<open>seeders.SeedTypes\<close> writes the four types in this order into an empty table.
\<close>

definition seeded_types :: "Type list" where
  "seeded_types =
     [\<lparr>ID = 1, DeletedAt = None, Type.Name = TypeNameInvitation\<rparr>,
      \<lparr>ID = 2, DeletedAt = None, Type.Name = TypeNameAppointment\<rparr>,
      \<lparr>ID = 3, DeletedAt = None, Type.Name = TypeNameForm\<rparr>,
      \<lparr>ID = 4, DeletedAt = None, Type.Name = TypeNameCard\<rparr>]"

text \<open>
  A link of user 7 for a card, with the key of twenty letters \<open>a\<close>, and stores that
  hold it: live, and soft-deleted.
\<close>

definition link_a :: Link where
  "link_a = \<lparr>ID = 1, DeletedAt = None, Key = replicate 20 (CHR ''a''), TypeID = 4,
     TargetID = 1, Link.CreatorUserID = 7, Type = zero_Type\<rparr>"

definition seeded_world :: "reader \<Rightarrow> world" where
  "seeded_world r =
     \<lparr>committed = \<lparr>links = [], types = seeded_types, appointments = [], forms = [],
                    cards = [], invitations = []\<rparr>,
      pending = [], link_seq = 0, appointment_seq = 0, form_seq = 0, card_seq = 0,
      stmts = 0, rand_Reader = r, clock = 1000, TranslateError = False\<rparr>"

definition world_with_link :: "Link \<Rightarrow> reader \<Rightarrow> world" where
  "world_with_link l r =
     (seeded_world r)\<lparr>committed := (committed (seeded_world r))\<lparr>links := [l]\<rparr>, link_seq := 1\<rparr>"

text \<open>
  A store with one resource of each kind behind a link, at clock 1000: an appointment
  that expired at 999, a form that is disabled, a card that is disabled, an invitation
  that expired at 10, a link whose type is none of the seeded ones, and an appointment
  that is enabled and has no expiry.
\<close>

definition link_of :: "nat \<Rightarrow> char \<Rightarrow> nat \<Rightarrow> nat \<Rightarrow> Link" where
  "link_of i c typeID targetID =
     \<lparr>ID = i, DeletedAt = None, Key = replicate 20 c, TypeID = typeID, TargetID = targetID,
      Link.CreatorUserID = 7, Type = zero_Type\<rparr>"

definition appointment_of :: "nat \<Rightarrow> nat \<Rightarrow> bool \<Rightarrow> nat option \<Rightarrow> Appointment" where
  "appointment_of i linkID enabled expiresAt =
     \<lparr>ID = i, DeletedAt = None, Appointment.LinkID = linkID, ProviderUserID = 7,
      Appointment.IsEnabled = enabled, Appointment.Link = zero_Link,
      Appointment.Detail =
        \<lparr>AppointmentDetail.Name = ''Hair cut'', DurationMinutes = 30, BufferTimeBefore = 0,
         BufferTimeAfter = 0, BookingLeadTime = 60, BookingHorizonDays = 30,
         AppointmentDetail.ExpiresAt = expiresAt\<rparr>\<rparr>"

definition showcase_tables :: tables where
  "showcase_tables =
     \<lparr>links = [link_of 1 (CHR ''a'') 2 1, link_of 2 (CHR ''b'') 3 1, link_of 3 (CHR ''c'') 4 1,
               link_of 4 (CHR ''d'') 1 1, link_of 5 (CHR ''e'') 9 1, link_of 6 (CHR ''f'') 2 2],
      types = seeded_types,
      appointments = [appointment_of 1 1 True (Some 999), appointment_of 2 6 True None],
      forms = [\<lparr>ID = 1, DeletedAt = None, Form.LinkID = 2, Form.CreatorUserID = 7,
                 Form.IsEnabled = False, Form.Link = zero_Link,
                 Form.Detail = \<lparr>FormDetail.Title = ''Survey'', SubmissionLimit = None,
                   LimitPerUser = None, ClosesAt = None, PasswordHash = []\<rparr>\<rparr>],
      cards = [\<lparr>ID = 1, DeletedAt = None, Card.LinkID = 3, Card.CreatorUserID = 7,
                 Card.IsEnabled = False, Card.Link = zero_Link,
                 Card.Detail = \<lparr>FirstName = ''Ada'', LastName = ''Lovelace''\<rparr>\<rparr>],
      invitations = [\<lparr>ID = 1, DeletedAt = None, Invitation.LinkID = 4,
                       Invitation.CreatorUserID = 7, Invitation.IsEnabled = True,
                       Invitation.Link = zero_Link,
                       Invitation.Detail = \<lparr>InvitationDetail.Title = ''Wedding'',
                         InvitationDetail.ExpiresAt = Some 10\<rparr>\<rparr>]\<rparr>"

definition showcase :: world where
  "showcase = (seeded_world [])\<lparr>committed := showcase_tables\<rparr>"

section \<open>Properties of the key generator\<close>

lemma length_charsetForLink: "length charsetForLink = 62"
  by (simp add: charsetForLink_def)

lemma rand_Int_below: "rand_Int r m = (Inr v, r') \<Longrightarrow> v < m"
  by (induction r m rule: rand_Int.induct) (auto split: if_splits)

lemma fill_length: "fill n r = (Inr s, r') \<Longrightarrow> length s = n"
proof (induction n arbitrary: r s r')
  case 0
  then show ?case by simp
next
  case (Suc n)
  then show ?case
    by (auto split: prod.splits sum.splits)
qed

lemma fill_alphabet: "fill n r = (Inr s, r') \<Longrightarrow> set s \<subseteq> set charsetForLink"
proof (induction n arbitrary: r s r')
  case 0
  then show ?case by simp
next
  case (Suc n)
  from Suc.prems obtain v r1 s' where
    tl: "fill n r1 = (Inr s', r')" and s: "s = charsetForLink ! v # s'"
    and v: "v < length charsetForLink"
    by (auto simp: index_string_def split: prod.splits sum.splits if_splits)
  from Suc.IH [OF tl] v s show ?case by simp
qed

lemma rand_Int_delivered_Nil:
  "delivered r = [] \<Longrightarrow> \<exists>m r'. rand_Int r 62 = (Inl (ErrorsNew m), r')"
  by (induction r "62::nat" rule: rand_Int.induct) (auto split: if_splits)

lemma rand_Int_delivered_Cons:
  "delivered r = v # vs \<Longrightarrow> \<exists>r'. rand_Int r 62 = (Inr v, r') \<and> delivered r' = vs"
  by (induction r "62::nat" rule: rand_Int.induct) (auto split: if_splits)

lemma fill_source_fails:
  "length (delivered r) < n \<Longrightarrow>
     \<exists>m r'. fill n r = (Inl (Errorf ''random index generation failed: '' (ErrorsNew m) []), r')"
proof (induction n arbitrary: r)
  case 0
  then show ?case by simp
next
  case (Suc n)
  show ?case
  proof (cases "delivered r")
    case Nil
    then obtain m r' where "rand_Int r 62 = (Inl (ErrorsNew m), r')"
      using rand_Int_delivered_Nil by blast
    then show ?thesis by (simp add: length_charsetForLink)
  next
    case (Cons v vs)
    then obtain r' where r': "rand_Int r 62 = (Inr v, r')" "delivered r' = vs"
      using rand_Int_delivered_Cons by blast
    from rand_Int_below [OF r'(1)] have v: "v < 62" .
    from Suc.prems Cons r' have "length (delivered r') < n" by simp
    then obtain m r'' where
      "fill n r' = (Inl (Errorf ''random index generation failed: '' (ErrorsNew m) []), r'')"
      using Suc.IH by blast
    with r' v show ?thesis
      by (simp add: length_charsetForLink index_string_def)
  qed
qed

lemma fill_source_delivers:
  "n \<le> length (delivered r) \<Longrightarrow>
     \<exists>r'. fill n r = (Inr (map (\<lambda>v. charsetForLink ! v) (take n (delivered r))), r')"
proof (induction n arbitrary: r)
  case 0
  then show ?case by simp
next
  case (Suc n)
  from Suc.prems obtain v vs where d: "delivered r = v # vs"
    by (cases "delivered r") simp_all
  then obtain r' where r': "rand_Int r 62 = (Inr v, r')" "delivered r' = vs"
    using rand_Int_delivered_Cons by blast
  from rand_Int_below [OF r'(1)] have v: "v < 62" .
  from Suc.prems d r' have "n \<le> length (delivered r')" by simp
  from Suc.IH [OF this] obtain r'' where
    "fill n r' = (Inr (map (\<lambda>v. charsetForLink ! v) (take n (delivered r'))), r'')"
    by blast
  with r' v d show ?case
    by (simp add: length_charsetForLink index_string_def)
qed

text \<open>
  C4. For a positive length, a key returned without error has exactly that many
  characters, all of them in the alphabet of 62 symbols. When the entropy source fails
  before it has delivered that many indices, the generator returns no key but the error
  that wraps the read error of the source under \<open>random index generation failed\<close>: an
  error value, not a panic. When the source delivers enough indices, the generator
  returns the key spelled by the first \<open>len\<close> of them.
\<close>

theorem generateSecureRandomStringForLink_contract:
  "0 < len \<Longrightarrow>
     (\<forall>s r'. generateSecureRandomStringForLink len r = (Inr s, r') \<longrightarrow>
        int (length s) = len \<and> set s \<subseteq> set charsetForLink) \<and>
     length charsetForLink = 62 \<and> distinct charsetForLink \<and>
     (length (delivered r) < nat len \<longrightarrow>
        (\<exists>m r'. generateSecureRandomStringForLink len r
           = (Inl (Errorf ''random index generation failed: '' (ErrorsNew m) []), r'))) \<and>
     (nat len \<le> length (delivered r) \<longrightarrow>
        (\<exists>r'. generateSecureRandomStringForLink len r
           = (Inr (map (\<lambda>v. charsetForLink ! v) (take (nat len) (delivered r))), r')))"
proof (intro conjI allI impI)
  fix s r'
  assume pos: "0 < len" and ok: "generateSecureRandomStringForLink len r = (Inr s, r')"
  from pos ok have f: "fill (nat len) r = (Inr s, r')"
    by (simp add: generateSecureRandomStringForLink_def)
  from fill_length [OF f] pos show "int (length s) = len" by simp
  from fill_alphabet [OF f] show "set s \<subseteq> set charsetForLink" .
next
  show "length charsetForLink = 62" by (rule length_charsetForLink)
next
  show "distinct charsetForLink" by (simp add: charsetForLink_def)
next
  assume pos: "0 < len" and short: "length (delivered r) < nat len"
  from fill_source_fails [OF short] pos
  show "\<exists>m r'. generateSecureRandomStringForLink len r
          = (Inl (Errorf ''random index generation failed: '' (ErrorsNew m) []), r')"
    by (simp add: generateSecureRandomStringForLink_def)
next
  assume pos: "0 < len" and enough: "nat len \<le> length (delivered r)"
  from fill_source_delivers [OF enough] pos
  show "\<exists>r'. generateSecureRandomStringForLink len r
          = (Inr (map (\<lambda>v. charsetForLink ! v) (take (nat len) (delivered r))), r')"
    by (simp add: generateSecureRandomStringForLink_def)
qed

theorem generateSecureRandomStringForLink_contract_witness:
  "(0::int) < 3 \<and>
   generateSecureRandomStringForLink 3 [Some 0, Some 70, Some 26, Some 61] = (Inr ''aA9'', []) \<and>
   int (length ''aA9'') = 3 \<and> set ''aA9'' \<subseteq> set charsetForLink \<and>
   length (delivered [Some 0, None, Some 26, Some 61]) < nat 3 \<and>
   (\<exists>m r'. generateSecureRandomStringForLink 3 [Some 0, None, Some 26, Some 61]
      = (Inl (Errorf ''random index generation failed: '' (ErrorsNew m) []), r'))"
proof -
  have pos: "(0::int) < 3" by simp
  have run: "generateSecureRandomStringForLink 3 [Some 0, Some 70, Some 26, Some 61] = (Inr ''aA9'', [])"
    by (simp add: generateSecureRandomStringForLink_def charsetForLink_def index_string_def
        numeral_3_eq_3)
  have short: "length (delivered [Some 0, None, Some 26, Some 61]) < nat 3" by simp
  from generateSecureRandomStringForLink_contract [OF pos, of "[Some 0, Some 70, Some 26, Some 61]"] run
  have good: "int (length ''aA9'') = 3 \<and> set ''aA9'' \<subseteq> set charsetForLink" by blast
  from generateSecureRandomStringForLink_contract [OF pos, of "[Some 0, None, Some 26, Some 61]"] short
  have bad: "\<exists>m r'. generateSecureRandomStringForLink 3 [Some 0, None, Some 26, Some 61]
      = (Inl (Errorf ''random index generation failed: '' (ErrorsNew m) []), r')"
    by blast
  from pos run good short bad show ?thesis by blast
qed

section \<open>Basic facts about errors and the store\<close>

lemma errors_Is_refl [simp]: "errors_Is e e"
  by (cases e) simp_all

text \<open>
  Fields of the embedded \<open>BaseModel\<close> and a field that holds a struct embedding
  \<open>BaseModel\<close> itself do not touch each other.
\<close>

lemma Link_Type_update_base [simp]:
  "ID (l\<lparr>Type := t\<rparr>) = ID l" "DeletedAt (l\<lparr>Type := t\<rparr>) = DeletedAt l"
  for l :: Link
  by (cases l, simp)+

lemma Link_base_update_Type [simp]:
  "Type (l\<lparr>ID := i\<rparr>) = Type l" "Type (l\<lparr>DeletedAt := d\<rparr>) = Type l"
  for l :: Link
  by (cases l, simp)+

lemma view_sent [simp]: "view tx (sent w) = view tx w"
  by (simp add: view_def sent_def split: gorm_DB.splits)

lemma view_rand_Reader [simp]: "view tx (w\<lparr>rand_Reader := r\<rparr>) = view tx w"
  by (simp add: view_def split: gorm_DB.splits)

lemma view_exec_write [simp]: "view tx (exec_write tx wr w) = apply_write wr (view tx w)"
  by (cases tx) (simp_all add: view_def exec_write_def replay_def)

lemma sent_fields [simp]:
  "committed (sent w) = committed w" "pending (sent w) = pending w"
  "rand_Reader (sent w) = rand_Reader w" "clock (sent w) = clock w"
  "TranslateError (sent w) = TranslateError w" "stmts (sent w) = Suc (stmts w)"
  "link_seq (sent w) = link_seq w"
  by (simp_all add: sent_def)



text \<open>Unfolding the example stores and the lookups on them.\<close>

lemmas showcase_defs = showcase_def showcase_tables_def seeded_world_def seeded_types_def link_of_def
  appointment_of_def zero_Link_def zero_Type_def view_def sent_def
  TypeNameInvitation_def TypeNameAppointment_def TypeNameForm_def TypeNameCard_def Background_def

lemmas lookup_defs = GetLinkByKey_def LinkRepository_FindByKey_def preload_Type_def getDB_def
  NewLinkService_def NewLinkRepository_def NewLinkHandler_def
  NewAppointmentService_def NewAppointmentRepository_def AppointmentRepository_FindByID_def
  AppointmentRepository_getDB_def
  NewFormService_def NewFormRepository_def FormRepository_FindByID_def FormRepository_getDB_def
  NewInvitationService_def NewInvitationRepository_def InvitationRepository_FindByID_def
  InvitationRepository_getDB_def
  NewCardService_def NewCardRepository_def GetCardByID_def

section \<open>Invalid input is refused before the store is touched\<close>

text \<open>
  C10. \<open>CreateLink\<close> with a zero \<open>typeID\<close> or \<open>creatorUserID\<close>, and \<open>UpdateLinkTarget\<close> with a
  zero \<open>linkID\<close>, \<open>targetID\<close> or \<open>updatingUserID\<close>, return an error that wraps
  \<open>ErrLinkInvalidInput\<close> and leave the world as it was: no statement is sent, and the
  target of a link cannot be set to zero through the service.
\<close>

theorem service_rejects_zero_identifiers:
  "(typeID = 0 \<or> creatorUserID = 0 \<longrightarrow>
      (\<exists>err. CreateLink s ctx creatorUserID typeID w = (Inl err, w) \<and>
             errors_Is err ErrLinkInvalidInput)) \<and>
   (linkID = 0 \<or> targetID = 0 \<or> updatingUserID = 0 \<longrightarrow>
      (\<exists>err. UpdateLinkTarget s ctx updatingUserID linkID targetID w = (Some err, w) \<and>
             errors_Is err ErrLinkInvalidInput))"
  by (auto simp: CreateLink_def UpdateLinkTarget_def)

theorem service_rejects_zero_identifiers_witness:
  "(\<exists>err. CreateLink NewLinkService Background 0 2 (seeded_world []) = (Inl err, seeded_world []) \<and>
          errors_Is err ErrLinkInvalidInput) \<and>
   (\<exists>err. UpdateLinkTarget NewLinkService Background 7 1 0 (seeded_world [])
            = (Some err, seeded_world []) \<and>
          errors_Is err ErrLinkInvalidInput)"
  using service_rejects_zero_identifiers [of 2 0 NewLinkService Background "seeded_world []" 1 0 7]
  by simp

section \<open>The public dispatch\<close>

text \<open>
  C7. A key whose length is not 20 is answered with status 404 by both handlers, and the
  world is returned as it was: no statement has been sent to the store.
\<close>

theorem wrong_length_no_store_access:
  "length key \<noteq> 20 \<Longrightarrow>
     (\<exists>r. LinkHandler_HandleLink h ctx key w = (r, w) \<and> status r = StatusNotFound) \<and>
     (\<exists>r. PublicLinkHandler_HandleLink h ctx key w = (r, w) \<and> status r = StatusNotFound)"
  by (simp add: LinkHandler_HandleLink_def PublicLinkHandler_HandleLink_def renderNotFound_def)

theorem wrong_length_no_store_access_witness:
  "length ''short'' \<noteq> 20 \<and>
   (\<exists>r. LinkHandler_HandleLink NewLinkHandler Background ''short'' (seeded_world [])
          = (r, seeded_world []) \<and> status r = StatusNotFound) \<and>
   (\<exists>r. PublicLinkHandler_HandleLink NewLinkHandler Background ''short'' (seeded_world [])
          = (r, seeded_world []) \<and> status r = StatusNotFound)"
  using wrong_length_no_store_access [of "''short''" NewLinkHandler Background "seeded_world []"]
  by simp

text \<open>
  C8. When the link found for a key of the right length carries a type name that is none
  of the four supported ones, both handlers take the default branch of the switch and
  answer with status 404; the answer is an ordinary response, not a panic.
\<close>

theorem unknown_type_is_not_found:
  "length key = 20 \<Longrightarrow>
   GetLinkByKey (LinkHandler.linkService h) ctx key w = (Inr link, w1) \<Longrightarrow>
   Type.Name (Type link) \<notin> {TypeNameInvitation, TypeNameAppointment, TypeNameForm, TypeNameCard} \<Longrightarrow>
     LinkHandler_HandleLink h ctx key w = (renderNotFound ''Gecersiz Link Turu'', w1) \<and>
     PublicLinkHandler_HandleLink h ctx key w
       = (SendString StatusNotFound ''Gecersiz link turu.'', w1) \<and>
     status (renderNotFound ''Gecersiz Link Turu'') = StatusNotFound \<and>
     status (SendString StatusNotFound ''Gecersiz link turu.'') = StatusNotFound"
  by (simp add: LinkHandler_HandleLink_def PublicLinkHandler_HandleLink_def renderNotFound_def)

theorem unknown_type_is_not_found_witness:
  "length (replicate 20 (CHR ''e'')) = 20 \<and>
   status (fst (LinkHandler_HandleLink NewLinkHandler Background (replicate 20 (CHR ''e'')) showcase))
     = StatusNotFound \<and>
   status (fst (PublicLinkHandler_HandleLink NewLinkHandler Background (replicate 20 (CHR ''e'')) showcase))
     = StatusNotFound"
proof -
  obtain link w1 where
    found: "GetLinkByKey (LinkHandler.linkService NewLinkHandler) Background
              (replicate 20 (CHR ''e'')) showcase = (Inr link, w1)"
    and name: "Type.Name (Type link) = []"
    by (simp add: showcase_defs lookup_defs)
  from name have other: "Type.Name (Type link) \<notin>
      {TypeNameInvitation, TypeNameAppointment, TypeNameForm, TypeNameCard}"
    by (simp add: TypeNameInvitation_def TypeNameAppointment_def TypeNameForm_def TypeNameCard_def)
  have len: "length (replicate 20 (CHR ''e'')) = 20" by simp
  from unknown_type_is_not_found [OF len found other] show ?thesis
    by simp
qed

section \<open>The public lookups of the resource services\<close>

lemma GetAppointmentByKey_visible:
  "GetAppointmentByKey s ctx key w = (Inr a, w') \<Longrightarrow>
     Appointment.IsEnabled a \<and>
     (\<forall>t. AppointmentDetail.ExpiresAt (Appointment.Detail a) = Some t \<longrightarrow> \<not> t < clock w')"
  by (auto simp: GetAppointmentByKey_def split: if_splits prod.splits sum.splits option.splits)

lemma GetAppointmentByKey_hidden:
  "key \<noteq> [] \<Longrightarrow>
   GetLinkByKey (AppointmentService.linkService s) ctx key w = (Inr link, w1) \<Longrightarrow>
   Type.Name (Type link) = TypeNameAppointment \<Longrightarrow>
   AppointmentRepository_FindByID (AppointmentService.repo s) ctx (TargetID link) w1 = (Inr a, w2) \<Longrightarrow>
   \<not> Appointment.IsEnabled a \<or>
     (\<exists>t. AppointmentDetail.ExpiresAt (Appointment.Detail a) = Some t \<and> t < clock w2) \<Longrightarrow>
   GetAppointmentByKey s ctx key w = (Inl ErrAppointmentNotFound, w2)"
  by (auto simp: GetAppointmentByKey_def split: option.splits)

lemma GetFormByKey_visible:
  "GetFormByKey s ctx key w = (Inr f, w') \<Longrightarrow>
     Form.IsEnabled f \<and> (\<forall>t. ClosesAt (Form.Detail f) = Some t \<longrightarrow> \<not> t < clock w')"
  by (auto simp: GetFormByKey_def split: if_splits prod.splits sum.splits option.splits)

lemma GetFormByKey_hidden:
  "key \<noteq> [] \<Longrightarrow>
   GetLinkByKey (FormService.linkService s) ctx key w = (Inr link, w1) \<Longrightarrow>
   Type.Name (Type link) = TypeNameForm \<Longrightarrow>
   FormRepository_FindByID (FormService.repo s) ctx (TargetID link) w1 = (Inr f, w2) \<Longrightarrow>
   \<not> Form.IsEnabled f \<or> (\<exists>t. ClosesAt (Form.Detail f) = Some t \<and> t < clock w2) \<Longrightarrow>
   GetFormByKey s ctx key w = (Inl ErrFormNotFound, w2)"
  by (auto simp: GetFormByKey_def split: option.splits)

lemma GetInvitationByKey_visible:
  "GetInvitationByKey s ctx key w = (Inr i, w') \<Longrightarrow>
     Invitation.IsEnabled i \<and>
     (\<forall>t. InvitationDetail.ExpiresAt (Invitation.Detail i) = Some t \<longrightarrow> \<not> t < clock w')"
  by (auto simp: GetInvitationByKey_def split: if_splits prod.splits sum.splits option.splits)

lemma GetInvitationByKey_hidden:
  "key \<noteq> [] \<Longrightarrow>
   GetLinkByKey (InvitationService.linkService s) ctx key w = (Inr link, w1) \<Longrightarrow>
   Type.Name (Type link) = TypeNameInvitation \<Longrightarrow>
   InvitationRepository_FindByID (InvitationService.repo s) ctx (TargetID link) w1 = (Inr i, w2) \<Longrightarrow>
   \<not> Invitation.IsEnabled i \<or>
     (\<exists>t. InvitationDetail.ExpiresAt (Invitation.Detail i) = Some t \<and> t < clock w2) \<Longrightarrow>
   GetInvitationByKey s ctx key w = (Inl ErrInvitationNotFound, w2)"
  by (auto simp: GetInvitationByKey_def split: option.splits)

lemma GetCardByKey_visible:
  "GetCardByKey s ctx key w = (Inr c, w') \<Longrightarrow> Card.IsEnabled c"
  by (auto simp: GetCardByKey_def split: if_splits prod.splits sum.splits)

lemma GetCardByKey_hidden:
  "key \<noteq> [] \<Longrightarrow>
   LinkRepository_FindByKey (linkRepo s) ctx key w = (Inr link, w1) \<Longrightarrow>
   Type.Name (Type link) = TypeNameCard \<Longrightarrow>
   GetCardByID (CardService.repo s) (TargetID link) w1 = (Inr c, w2) \<Longrightarrow>
   \<not> Card.IsEnabled c \<Longrightarrow>
   GetCardByKey s ctx key w = (Inl ErrCardNotFound, w2)"
  by (auto simp: GetCardByKey_def)

text \<open>
  C6. The public lookup by key of every resource service returns a resource only when
  it is enabled and the clock is not past its expiry (\<open>ExpiresAt\<close> of an appointment or an
  invitation, \<open>ClosesAt\<close> of a form; a card has no expiry field); and when the link of
  the right type leads to a row that is disabled or past its expiry, the lookup returns
  the not-found error of the service.
\<close>

theorem public_lookup_visibility:
  "(\<forall>a w'. GetAppointmentByKey sa ctx ka w = (Inr a, w') \<longrightarrow>
      Appointment.IsEnabled a \<and>
      (\<forall>t. AppointmentDetail.ExpiresAt (Appointment.Detail a) = Some t \<longrightarrow> \<not> t < clock w')) \<and>
   (\<forall>f w'. GetFormByKey sf ctx kf w = (Inr f, w') \<longrightarrow>
      Form.IsEnabled f \<and> (\<forall>t. ClosesAt (Form.Detail f) = Some t \<longrightarrow> \<not> t < clock w')) \<and>
   (\<forall>i w'. GetInvitationByKey si ctx ki w = (Inr i, w') \<longrightarrow>
      Invitation.IsEnabled i \<and>
      (\<forall>t. InvitationDetail.ExpiresAt (Invitation.Detail i) = Some t \<longrightarrow> \<not> t < clock w')) \<and>
   (\<forall>c w'. GetCardByKey sc ctx kc w = (Inr c, w') \<longrightarrow> Card.IsEnabled c) \<and>
   (\<forall>link w1 a w2. ka \<noteq> [] \<and>
      GetLinkByKey (AppointmentService.linkService sa) ctx ka w = (Inr link, w1) \<and>
      Type.Name (Type link) = TypeNameAppointment \<and>
      AppointmentRepository_FindByID (AppointmentService.repo sa) ctx (TargetID link) w1 = (Inr a, w2) \<and>
      (\<not> Appointment.IsEnabled a \<or>
       (\<exists>t. AppointmentDetail.ExpiresAt (Appointment.Detail a) = Some t \<and> t < clock w2)) \<longrightarrow>
      GetAppointmentByKey sa ctx ka w = (Inl ErrAppointmentNotFound, w2)) \<and>
   (\<forall>link w1 f w2. kf \<noteq> [] \<and>
      GetLinkByKey (FormService.linkService sf) ctx kf w = (Inr link, w1) \<and>
      Type.Name (Type link) = TypeNameForm \<and>
      FormRepository_FindByID (FormService.repo sf) ctx (TargetID link) w1 = (Inr f, w2) \<and>
      (\<not> Form.IsEnabled f \<or> (\<exists>t. ClosesAt (Form.Detail f) = Some t \<and> t < clock w2)) \<longrightarrow>
      GetFormByKey sf ctx kf w = (Inl ErrFormNotFound, w2)) \<and>
   (\<forall>link w1 i w2. ki \<noteq> [] \<and>
      GetLinkByKey (InvitationService.linkService si) ctx ki w = (Inr link, w1) \<and>
      Type.Name (Type link) = TypeNameInvitation \<and>
      InvitationRepository_FindByID (InvitationService.repo si) ctx (TargetID link) w1 = (Inr i, w2) \<and>
      (\<not> Invitation.IsEnabled i \<or>
       (\<exists>t. InvitationDetail.ExpiresAt (Invitation.Detail i) = Some t \<and> t < clock w2)) \<longrightarrow>
      GetInvitationByKey si ctx ki w = (Inl ErrInvitationNotFound, w2)) \<and>
   (\<forall>link w1 c w2. kc \<noteq> [] \<and>
      LinkRepository_FindByKey (linkRepo sc) ctx kc w = (Inr link, w1) \<and>
      Type.Name (Type link) = TypeNameCard \<and>
      GetCardByID (CardService.repo sc) (TargetID link) w1 = (Inr c, w2) \<and>
      \<not> Card.IsEnabled c \<longrightarrow>
      GetCardByKey sc ctx kc w = (Inl ErrCardNotFound, w2))"
proof -
  have v1: "\<forall>a w'. GetAppointmentByKey sa ctx ka w = (Inr a, w') \<longrightarrow>
      Appointment.IsEnabled a \<and>
      (\<forall>t. AppointmentDetail.ExpiresAt (Appointment.Detail a) = Some t \<longrightarrow> \<not> t < clock w')"
    using GetAppointmentByKey_visible by blast
  have v2: "\<forall>f w'. GetFormByKey sf ctx kf w = (Inr f, w') \<longrightarrow>
      Form.IsEnabled f \<and> (\<forall>t. ClosesAt (Form.Detail f) = Some t \<longrightarrow> \<not> t < clock w')"
    using GetFormByKey_visible by blast
  have v3: "\<forall>i w'. GetInvitationByKey si ctx ki w = (Inr i, w') \<longrightarrow>
      Invitation.IsEnabled i \<and>
      (\<forall>t. InvitationDetail.ExpiresAt (Invitation.Detail i) = Some t \<longrightarrow> \<not> t < clock w')"
    using GetInvitationByKey_visible by blast
  have v4: "\<forall>c w'. GetCardByKey sc ctx kc w = (Inr c, w') \<longrightarrow> Card.IsEnabled c"
    using GetCardByKey_visible by blast
  have h1: "\<forall>link w1 a w2. ka \<noteq> [] \<and>
      GetLinkByKey (AppointmentService.linkService sa) ctx ka w = (Inr link, w1) \<and>
      Type.Name (Type link) = TypeNameAppointment \<and>
      AppointmentRepository_FindByID (AppointmentService.repo sa) ctx (TargetID link) w1 = (Inr a, w2) \<and>
      (\<not> Appointment.IsEnabled a \<or>
       (\<exists>t. AppointmentDetail.ExpiresAt (Appointment.Detail a) = Some t \<and> t < clock w2)) \<longrightarrow>
      GetAppointmentByKey sa ctx ka w = (Inl ErrAppointmentNotFound, w2)"
    using GetAppointmentByKey_hidden [of ka sa ctx w] by blast
  have h2: "\<forall>link w1 f w2. kf \<noteq> [] \<and>
      GetLinkByKey (FormService.linkService sf) ctx kf w = (Inr link, w1) \<and>
      Type.Name (Type link) = TypeNameForm \<and>
      FormRepository_FindByID (FormService.repo sf) ctx (TargetID link) w1 = (Inr f, w2) \<and>
      (\<not> Form.IsEnabled f \<or> (\<exists>t. ClosesAt (Form.Detail f) = Some t \<and> t < clock w2)) \<longrightarrow>
      GetFormByKey sf ctx kf w = (Inl ErrFormNotFound, w2)"
    using GetFormByKey_hidden [of kf sf ctx w] by blast
  have h3: "\<forall>link w1 i w2. ki \<noteq> [] \<and>
      GetLinkByKey (InvitationService.linkService si) ctx ki w = (Inr link, w1) \<and>
      Type.Name (Type link) = TypeNameInvitation \<and>
      InvitationRepository_FindByID (InvitationService.repo si) ctx (TargetID link) w1 = (Inr i, w2) \<and>
      (\<not> Invitation.IsEnabled i \<or>
       (\<exists>t. InvitationDetail.ExpiresAt (Invitation.Detail i) = Some t \<and> t < clock w2)) \<longrightarrow>
      GetInvitationByKey si ctx ki w = (Inl ErrInvitationNotFound, w2)"
    using GetInvitationByKey_hidden [of ki si ctx w] by blast
  have h4: "\<forall>link w1 c w2. kc \<noteq> [] \<and>
      LinkRepository_FindByKey (linkRepo sc) ctx kc w = (Inr link, w1) \<and>
      Type.Name (Type link) = TypeNameCard \<and>
      GetCardByID (CardService.repo sc) (TargetID link) w1 = (Inr c, w2) \<and>
      \<not> Card.IsEnabled c \<longrightarrow>
      GetCardByKey sc ctx kc w = (Inl ErrCardNotFound, w2)"
    using GetCardByKey_hidden [of kc sc ctx w] by blast
  show ?thesis
    by (intro conjI v1 v2 v3 v4 h1 h2 h3 h4)
qed

theorem public_lookup_visibility_witness:
  "fst (GetAppointmentByKey NewAppointmentService Background (replicate 20 (CHR ''a'')) showcase)
     = Inl ErrAppointmentNotFound \<and>
   fst (GetFormByKey NewFormService Background (replicate 20 (CHR ''b'')) showcase)
     = Inl ErrFormNotFound \<and>
   fst (GetInvitationByKey NewInvitationService Background (replicate 20 (CHR ''d'')) showcase)
     = Inl ErrInvitationNotFound \<and>
   fst (GetCardByKey NewCardService Background (replicate 20 (CHR ''c'')) showcase)
     = Inl ErrCardNotFound \<and>
   (\<exists>a w'. GetAppointmentByKey NewAppointmentService Background (replicate 20 (CHR ''f'')) showcase
              = (Inr a, w') \<and>
            Appointment.IsEnabled a \<and> AppointmentDetail.ExpiresAt (Appointment.Detail a) = None)"
proof -
  note T = public_lookup_visibility [where w = showcase and ctx = Background
      and sa = NewAppointmentService and sf = NewFormService and si = NewInvitationService
      and sc = NewCardService]
  obtain la wa1 a wa2 where
    "GetLinkByKey (AppointmentService.linkService NewAppointmentService) Background
       (replicate 20 (CHR ''a'')) showcase = (Inr la, wa1)"
    "Type.Name (Type la) = TypeNameAppointment"
    "AppointmentRepository_FindByID (AppointmentService.repo NewAppointmentService) Background
       (TargetID la) wa1 = (Inr a, wa2)"
    "\<exists>t. AppointmentDetail.ExpiresAt (Appointment.Detail a) = Some t \<and> t < clock wa2"
    by (simp add: showcase_defs lookup_defs)
  with T [where ka = "replicate 20 (CHR ''a'')"]
  have "GetAppointmentByKey NewAppointmentService Background (replicate 20 (CHR ''a'')) showcase
      = (Inl ErrAppointmentNotFound, wa2)"
    by (metis replicate_empty zero_neq_numeral)
  then have A: "fst (GetAppointmentByKey NewAppointmentService Background
      (replicate 20 (CHR ''a'')) showcase) = Inl ErrAppointmentNotFound"
    by simp
  obtain lf wf1 f wf2 where
    "GetLinkByKey (FormService.linkService NewFormService) Background
       (replicate 20 (CHR ''b'')) showcase = (Inr lf, wf1)"
    "Type.Name (Type lf) = TypeNameForm"
    "FormRepository_FindByID (FormService.repo NewFormService) Background
       (TargetID lf) wf1 = (Inr f, wf2)"
    "\<not> Form.IsEnabled f"
    by (simp add: showcase_defs lookup_defs)
  with T [where kf = "replicate 20 (CHR ''b'')"]
  have "GetFormByKey NewFormService Background (replicate 20 (CHR ''b'')) showcase
      = (Inl ErrFormNotFound, wf2)"
    by (metis replicate_empty zero_neq_numeral)
  then have F: "fst (GetFormByKey NewFormService Background
      (replicate 20 (CHR ''b'')) showcase) = Inl ErrFormNotFound"
    by simp
  obtain li wi1 i wi2 where
    "GetLinkByKey (InvitationService.linkService NewInvitationService) Background
       (replicate 20 (CHR ''d'')) showcase = (Inr li, wi1)"
    "Type.Name (Type li) = TypeNameInvitation"
    "InvitationRepository_FindByID (InvitationService.repo NewInvitationService) Background
       (TargetID li) wi1 = (Inr i, wi2)"
    "\<exists>t. InvitationDetail.ExpiresAt (Invitation.Detail i) = Some t \<and> t < clock wi2"
    by (simp add: showcase_defs lookup_defs)
  with T [where ki = "replicate 20 (CHR ''d'')"]
  have "GetInvitationByKey NewInvitationService Background (replicate 20 (CHR ''d'')) showcase
      = (Inl ErrInvitationNotFound, wi2)"
    by (metis replicate_empty zero_neq_numeral)
  then have I: "fst (GetInvitationByKey NewInvitationService Background
      (replicate 20 (CHR ''d'')) showcase) = Inl ErrInvitationNotFound"
    by simp
  obtain lc wc1 c wc2 where
    "LinkRepository_FindByKey (linkRepo NewCardService) Background
       (replicate 20 (CHR ''c'')) showcase = (Inr lc, wc1)"
    "Type.Name (Type lc) = TypeNameCard"
    "GetCardByID (CardService.repo NewCardService) (TargetID lc) wc1 = (Inr c, wc2)"
    "\<not> Card.IsEnabled c"
    by (simp add: showcase_defs lookup_defs)
  with T [where kc = "replicate 20 (CHR ''c'')"]
  have "GetCardByKey NewCardService Background (replicate 20 (CHR ''c'')) showcase
      = (Inl ErrCardNotFound, wc2)"
    by (metis replicate_empty zero_neq_numeral)
  then have C: "fst (GetCardByKey NewCardService Background
      (replicate 20 (CHR ''c'')) showcase) = Inl ErrCardNotFound"
    by simp
  obtain b wb where
    vis: "GetAppointmentByKey NewAppointmentService Background (replicate 20 (CHR ''f'')) showcase
      = (Inr b, wb)"
    and noexp: "AppointmentDetail.ExpiresAt (Appointment.Detail b) = None"
    by (simp add: GetAppointmentByKey_def ErrLinkNotFound_def showcase_defs lookup_defs)
  from T [where ka = "replicate 20 (CHR ''f'')"]
  have "\<forall>a w'. GetAppointmentByKey NewAppointmentService Background
        (replicate 20 (CHR ''f'')) showcase = (Inr a, w') \<longrightarrow>
      Appointment.IsEnabled a \<and>
      (\<forall>t. AppointmentDetail.ExpiresAt (Appointment.Detail a) = Some t \<longrightarrow> \<not> t < clock w')"
    by (rule conjunct1)
  with vis have "Appointment.IsEnabled b" by blast
  with vis noexp
  have V: "\<exists>a w'. GetAppointmentByKey NewAppointmentService Background
        (replicate 20 (CHR ''f'')) showcase = (Inr a, w') \<and>
      Appointment.IsEnabled a \<and> AppointmentDetail.ExpiresAt (Appointment.Detail a) = None"
    by blast
  show ?thesis
    by (intro conjI A F I C V)
qed

section \<open>The bounded attempts of \<open>BeforeCreate\<close>\<close>




lemma view_link_seq [simp]: "view tx (w\<lparr>link_seq := n\<rparr>) = view tx w"
  by (simp add: view_def split: gorm_DB.splits)












section \<open>A duplicate key at the insert\<close>

lemma unique_violation_is_duplicate:
  "errors_Is (unique_violation w0) ErrDuplicatedKey \<or>
   strings_Contains (Error (unique_violation w0)) ''duplicate key value violates unique constraint''"
  by (simp add: unique_violation_def)

text \<open>
  C2, as the code has it. When the insert of the link fails on the unique index,
  \<open>CreateLink\<close> makes no further attempt: it returns \<open>ErrLinkKeyGenerationFailed\<close> to its
  caller, and the world is the one that the single failed \<open>Create\<close> left.
\<close>

theorem duplicate_key_is_not_retried:
  "typeID \<noteq> 0 \<Longrightarrow> creatorUserID \<noteq> 0 \<Longrightarrow>
   LinkRepository_Create (LinkService.repo s) (contextWithUserID ctx creatorUserID)
     (zero_Link\<lparr>TypeID := typeID, Link.CreatorUserID := creatorUserID\<rparr>) w
     = (Inl (unique_violation w0), w') \<Longrightarrow>
   CreateLink s ctx creatorUserID typeID w = (Inl ErrLinkKeyGenerationFailed, w')"
  using unique_violation_is_duplicate [of w0]
  by (simp add: CreateLink_def)

text \<open>
  The store holds a soft-deleted link with the key of twenty \<open>a\<close>. The source delivers
  that key first and the key of twenty \<open>b\<close> next. The existence check does not count the
  soft-deleted row, the unique index does: the insert fails, \<open>CreateLink\<close> returns the
  error after two statements (one count, one insert), and the second key is still unread.
\<close>

theorem duplicate_key_surfaces_counterexample:
  "fst (LinkRepository_Create NewLinkRepository (contextWithUserID Background 7)
          (zero_Link\<lparr>TypeID := 2, Link.CreatorUserID := 7\<rparr>)
          (world_with_link (link_a\<lparr>DeletedAt := Some 500\<rparr>)
             (replicate 20 (Some 0) @ replicate 20 (Some 1))))
     = Inl (DriverError ''ERROR: duplicate key value violates unique constraint (SQLSTATE 23505)'') \<and>
   fst (CreateLink NewLinkService Background 7 2
          (world_with_link (link_a\<lparr>DeletedAt := Some 500\<rparr>)
             (replicate 20 (Some 0) @ replicate 20 (Some 1))))
     = Inl ErrLinkKeyGenerationFailed \<and>
   rand_Reader (snd (CreateLink NewLinkService Background 7 2
          (world_with_link (link_a\<lparr>DeletedAt := Some 500\<rparr>)
             (replicate 20 (Some 0) @ replicate 20 (Some 1)))))
     = replicate 20 (Some 1) \<and>
   stmts (snd (CreateLink NewLinkService Background 7 2
          (world_with_link (link_a\<lparr>DeletedAt := Some 500\<rparr>)
             (replicate 20 (Some 0) @ replicate 20 (Some 1)))))
     = 2 \<and>
   \<not> reported_present MainDB
        (world_with_link (link_a\<lparr>DeletedAt := Some 500\<rparr>)
           (replicate 20 (Some 0) @ replicate 20 (Some 1)))
        (replicate 20 (CHR ''b''))"
  by code_simp

theorem duplicate_key_is_not_retried_witness:
  "(2::nat) \<noteq> 0 \<and> (7::nat) \<noteq> 0 \<and>
   fst (LinkRepository_Create (LinkService.repo NewLinkService) (contextWithUserID Background 7)
          (zero_Link\<lparr>TypeID := 2, Link.CreatorUserID := 7\<rparr>)
          (world_with_link (link_a\<lparr>DeletedAt := Some 500\<rparr>) (replicate 20 (Some 0))))
     = Inl (unique_violation (world_with_link (link_a\<lparr>DeletedAt := Some 500\<rparr>) [])) \<and>
   fst (CreateLink NewLinkService Background 7 2
          (world_with_link (link_a\<lparr>DeletedAt := Some 500\<rparr>) (replicate 20 (Some 0))))
     = Inl ErrLinkKeyGenerationFailed"
proof -
  have e: "fst (LinkRepository_Create (LinkService.repo NewLinkService) (contextWithUserID Background 7)
          (zero_Link\<lparr>TypeID := 2, Link.CreatorUserID := 7\<rparr>)
          (world_with_link (link_a\<lparr>DeletedAt := Some 500\<rparr>) (replicate 20 (Some 0))))
     = Inl (unique_violation (world_with_link (link_a\<lparr>DeletedAt := Some 500\<rparr>) []))"
    by code_simp
  then obtain w' where
    "LinkRepository_Create (LinkService.repo NewLinkService) (contextWithUserID Background 7)
          (zero_Link\<lparr>TypeID := 2, Link.CreatorUserID := 7\<rparr>)
          (world_with_link (link_a\<lparr>DeletedAt := Some 500\<rparr>) (replicate 20 (Some 0)))
     = (Inl (unique_violation (world_with_link (link_a\<lparr>DeletedAt := Some 500\<rparr>) [])), w')"
    by (metis prod.collapse)
  from duplicate_key_is_not_retried [OF _ _ this]
  have "CreateLink NewLinkService Background 7 2
          (world_with_link (link_a\<lparr>DeletedAt := Some 500\<rparr>) (replicate 20 (Some 0)))
     = (Inl ErrLinkKeyGenerationFailed, w')"
    by simp
  with e show ?thesis by simp
qed

section \<open>Updates and the key\<close>

lemma assign_column_Key:
  "k \<noteq> ''Key'' \<Longrightarrow> k \<noteq> ''key'' \<Longrightarrow>
   (case assign_column (k, v) l of Inl e \<Rightarrow> True | Inr l1 \<Rightarrow> Key l1 = Key l)"
  by (simp add: assign_column_def split: go_any.split)

lemma assign_column_keeps_Key:
  "k \<noteq> ''Key'' \<Longrightarrow> k \<noteq> ''key'' \<Longrightarrow> assign_column (k, v) l = Inr l1 \<Longrightarrow> Key l1 = Key l"
  using assign_column_Key [where k = k and v = v and l = l] by simp

lemma assign_columns_keeps_Key:
  "''Key'' \<notin> fst ` set data \<Longrightarrow> ''key'' \<notin> fst ` set data \<Longrightarrow>
   assign_columns data l = Inr l' \<Longrightarrow> Key l' = Key l"
proof (induction data arbitrary: l)
  case Nil
  then show ?case by simp
next
  case (Cons kv data)
  obtain k v where kv: "kv = (k, v)" by (cases kv)
  from Cons.prems(1,2) kv have k: "k \<noteq> ''Key''" "k \<noteq> ''key''"
    and rest: "''Key'' \<notin> fst ` set data" "''key'' \<notin> fst ` set data"
    by auto
  show ?case
  proof (cases "assign_column (k, v) l")
    case (Inl e)
    with Cons.prems(3) kv show ?thesis by simp
  next
    case (Inr l1)
    with Cons.prems(3) kv have "assign_columns data l1 = Inr l'" by simp
    from Cons.IH [OF rest this] assign_column_keeps_Key [OF k Inr] show ?thesis by simp
  qed
qed

lemma update_row_keeps_Key:
  "''Key'' \<notin> fst ` set data \<Longrightarrow> ''key'' \<notin> fst ` set data \<Longrightarrow>
   Key (update_row id' data l) = Key l"
  by (auto simp: update_row_def split: sum.splits dest: assign_columns_keeps_Key)

lemma key_change_is_refused:
  "Statement_Changed_Key zero_Link data \<Longrightarrow> id' \<noteq> 0 \<Longrightarrow>
   LinkRepository_Update r ctx id' data updatedByUserID w = (Some ErrKeyImmutable, w)"
proof -
  assume ch: "Statement_Changed_Key zero_Link data" and id': "id' \<noteq> 0"
  from ch have "data \<noteq> []"
    by (auto simp: Statement_Changed_Key_def)
  with ch id' show ?thesis
    by (simp add: LinkRepository_Update_def gorm_Updates_Link_def BeforeUpdate_def Let_def)
qed

lemma gorm_Updates_Link_keeps_keys:
  "''Key'' \<notin> fst ` set data \<Longrightarrow> ''key'' \<notin> fst ` set data \<Longrightarrow>
   map Key (links (view tx (snd (gorm_Updates_Link tx id' data w)))) = map Key (links (view tx w))"
  by (simp add: gorm_Updates_Link_def Let_def update_row_keeps_Key comp_def
      split: option.split sum.split)

lemma update_without_key_keeps_keys:
  "''Key'' \<notin> fst ` set data \<Longrightarrow> ''key'' \<notin> fst ` set data \<Longrightarrow>
   tx = getDB r (contextWithUserID ctx updatedByUserID) \<Longrightarrow>
   map Key (links (view tx (snd (LinkRepository_Update r ctx id' data updatedByUserID w))))
     = map Key (links (view tx w))"
proof -
  assume nk: "''Key'' \<notin> fst ` set data" "''key'' \<notin> fst ` set data"
    and tx: "tx = getDB r (contextWithUserID ctx updatedByUserID)"
  obtain res w1 where u: "gorm_Updates_Link tx id' data w = (res, w1)"
    by (cases "gorm_Updates_Link tx id' data w")
  from gorm_Updates_Link_keeps_keys [OF nk, of tx id' w] u
  have "map Key (links (view tx w1)) = map Key (links (view tx w))" by simp
  with u tx show ?thesis
    by (simp add: LinkRepository_Update_def Let_def count_links_where_id_def
        split: sum.split)
qed

text \<open>
  C5 at the input where it fails. The store holds the live link with the key of twenty
  \<open>a\<close>. \<open>LinkRepository.Update\<close> is given the map \<open>{"key": ""}\<close>: the hook compares the
  empty string with the key of the blank model, reports no change and lets the update
  through; the call returns nil and the stored key is now empty.
\<close>

theorem empty_key_update_passes_the_hook:
  "Key link_a = replicate 20 (CHR ''a'') \<and>
   links (committed (world_with_link link_a [])) = [link_a] \<and>
   fst (LinkRepository_Update NewLinkRepository Background 1 [(''key'', StrV [])] 7
          (world_with_link link_a []))
     = None \<and>
   map Key (links (committed (snd
      (LinkRepository_Update NewLinkRepository Background 1 [(''key'', StrV [])] 7
          (world_with_link link_a [])))))
     = [[]]"
  by code_simp

section \<open>A key supplied by the caller\<close>















section \<open>Creation of a resource and the transaction\<close>

lemma exec_write_TxDB_committed [simp]: "committed (exec_write TxDB wr w) = committed w"
  by (simp add: exec_write_def)

lemma CreateCard_keyLoop_committed:
  "committed (snd (CreateCard_keyLoop n tx w)) = committed w"
  by (induction n arbitrary: w)
     (simp_all add: count_links_where_key_def split: prod.split sum.split)

lemma BeforeCreate_attempts_committed:
  "committed (snd (BeforeCreate_attempts n tx l w)) = committed w"
  by (induction n arbitrary: w)
     (simp_all add: count_links_where_key_def split: prod.split sum.split)

lemma insert_link_TxDB_committed:
  "committed (snd (insert_link TxDB l w)) = committed w"
  by (simp add: insert_link_def Let_def)

lemma BeforeCreate_committed:
  "committed (snd (BeforeCreate tx l w)) = committed w"
  using BeforeCreate_attempts_committed [of maxAttempts tx l w]
  by (simp add: BeforeCreate_def)

lemma LinkRepository_Create_TxDB_committed:
  assumes "tx_value ctx = None"
  shows "committed (snd (LinkRepository_Create (NewLinkRepositoryTx TxDB) ctx l w)) = committed w"
proof -
  obtain res w1 where b: "BeforeCreate TxDB l w = (res, w1)"
    by (cases "BeforeCreate TxDB l w")
  from BeforeCreate_committed [of TxDB l w] b have c1: "committed w1 = committed w" by simp
  from assms have db: "getDB (NewLinkRepositoryTx TxDB) ctx = TxDB"
    by (simp add: getDB_def NewLinkRepositoryTx_def)
  show ?thesis
  proof (cases res)
    case (Inl err)
    with b c1 db show ?thesis
      by (simp add: LinkRepository_Create_def gorm_Create_Link_def)
  next
    case (Inr l1)
    with b c1 db insert_link_TxDB_committed [of l1 w1] show ?thesis
      by (simp add: LinkRepository_Create_def gorm_Create_Link_def)
  qed
qed

lemma CardRepository_CreateCard_TxDB_committed:
  "tx_value ctx = None \<Longrightarrow>
   committed (snd (CardRepository_CreateCard (NewCardRepositoryTx TxDB) ctx c w)) = committed w"
  by (simp add: CardRepository_CreateCard_def NewCardRepositoryTx_def insert_card_def Let_def)

lemma LinkRepository_Update_TxDB_committed:
  "tx_value ctx = None \<Longrightarrow>
   committed (snd (LinkRepository_Update (NewLinkRepositoryTx TxDB) ctx id' data u w)) = committed w"
  by (simp add: LinkRepository_Update_def gorm_Updates_Link_def getDB_def NewLinkRepositoryTx_def
      contextWithUserID_def count_links_where_id_def Let_def
      split: option.split sum.split prod.split)

lemma CreateCard_closure_committed:
  assumes "tx_value ctx = None"
  shows "committed (snd (CreateCard_closure s ctx creatorUserID detailData cardType TxDB w))
           = committed w"
proof -
  let ?txCtx = "contextWithUserID ctx creatorUserID"
  from assms have none: "tx_value ?txCtx = None" by (simp add: contextWithUserID_def)
  obtain kres w1 where loop: "CreateCard_keyLoop maxKeyAttempts TxDB w = (kres, w1)"
    by (cases "CreateCard_keyLoop maxKeyAttempts TxDB w")
  from CreateCard_keyLoop_committed [of maxKeyAttempts TxDB w] loop
  have c1: "committed w1 = committed w" by simp
  show ?thesis
  proof (cases kres)
    case (Inl err)
    with loop c1 show ?thesis by (simp add: CreateCard_closure_def Let_def)
  next
    case (Inr linkKey)
    let ?l = "zero_Link\<lparr>Key := linkKey, TypeID := ID cardType, Link.CreatorUserID := creatorUserID\<rparr>"
    obtain lres w2 where
      cr: "LinkRepository_Create (NewLinkRepositoryTx TxDB) ?txCtx ?l w1 = (lres, w2)"
      by (cases "LinkRepository_Create (NewLinkRepositoryTx TxDB) ?txCtx ?l w1")
    from LinkRepository_Create_TxDB_committed [OF none, of ?l w1] cr c1
    have c2: "committed w2 = committed w" by simp
    show ?thesis
    proof (cases lres)
      case (Inl err)
      with loop Inr cr c1 c2 show ?thesis by (simp add: CreateCard_closure_def Let_def)
    next
      case (Inr link)
      note link = this
      let ?c = "\<lparr>ID = 0, DeletedAt = None, Card.LinkID = ID link,
                 Card.CreatorUserID = creatorUserID, Card.IsEnabled = True,
                 Card.Link = zero_Link, Card.Detail = detailData\<rparr>"
      obtain cres w3 where
        cc: "CardRepository_CreateCard (NewCardRepositoryTx TxDB) ?txCtx ?c w2 = (cres, w3)"
        by (cases "CardRepository_CreateCard (NewCardRepositoryTx TxDB) ?txCtx ?c w2")
      from CardRepository_CreateCard_TxDB_committed [OF none, of ?c w2] cc c2
      have c3: "committed w3 = committed w" by simp
      show ?thesis
      proof (cases cres)
        case (Inl err)
        with loop \<open>kres = Inr linkKey\<close> cr link cc c1 c3 show ?thesis
          by (simp add: CreateCard_closure_def Let_def)
      next
        case (Inr card')
        obtain ures w4 where
          up: "LinkRepository_Update (NewLinkRepositoryTx TxDB) ?txCtx (ID link)
                 [(''target_id'', UintV (ID card'))] creatorUserID w3 = (ures, w4)"
          by (cases "LinkRepository_Update (NewLinkRepositoryTx TxDB) ?txCtx (ID link)
                 [(''target_id'', UintV (ID card'))] creatorUserID w3")
        from LinkRepository_Update_TxDB_committed [OF none, of "ID link"
            "[(''target_id'', UintV (ID card'))]" creatorUserID w3] up c3
        have c4: "committed w4 = committed w" by simp
        with loop \<open>kres = Inr linkKey\<close> cr link cc Inr up c1 show ?thesis
          by (simp add: CreateCard_closure_def Let_def split: option.split)
      qed
    qed
  qed
qed

lemma CreateCard_rolls_back:
  "tx_value ctx = None \<Longrightarrow> CreateCard s ctx creatorUserID detailData w = (Inl err, w') \<Longrightarrow>
     committed w' = committed w"
proof -
  assume none: "tx_value ctx = None"
    and f: "CreateCard s ctx creatorUserID detailData w = (Inl err, w')"
  have tr: "\<And>cardType. Transaction (CreateCard_closure s ctx creatorUserID detailData cardType) (sent w)
       = (Inl err, w') \<Longrightarrow> committed w' = committed w"
  proof -
    fix cardType
    assume t: "Transaction (CreateCard_closure s ctx creatorUserID detailData cardType) (sent w)
       = (Inl err, w')"
    obtain res w2 where
      cl: "CreateCard_closure s ctx creatorUserID detailData cardType TxDB ((sent w)\<lparr>pending := []\<rparr>)
             = (res, w2)"
      by (cases "CreateCard_closure s ctx creatorUserID detailData cardType TxDB
             ((sent w)\<lparr>pending := []\<rparr>)")
    from CreateCard_closure_committed [OF none, of s creatorUserID detailData cardType
        "(sent w)\<lparr>pending := []\<rparr>"] cl
    have "committed w2 = committed w" by simp
    with t cl show "committed w' = committed w"
      by (cases res) (auto simp: Transaction_def)
  qed
  from f tr show ?thesis
    by (auto simp: CreateCard_def GetTypeByName_def split: option.splits if_splits list.splits)
qed

text \<open>
  C1 at an input where it fails. The name of the appointment has 201 characters: it
  passes \<open>ValidateAppointmentDetail\<close> and is refused by the column \<open>varchar(200)\<close>. The
  link was created through \<open>s.linkService\<close>, whose repository holds the connection pool
  and finds no transaction in the context: the insert of the link was committed on its
  own. \<open>CreateAppointment\<close> returns \<open>ErrAppointmentCreationFailed\<close>, the transaction is rolled
  back, and the committed links table holds the link of user 7 with target 0. The same
  happens in \<open>CreateForm\<close> with a title of 256 characters; \<open>CreateCard\<close> with a first name
  of 101 characters leaves the links table empty.
\<close>

theorem CreateAppointment_link_outlives_rollback:
  "fst (CreateAppointment NewAppointmentService Background 7
          ((Appointment.Detail (appointment_of 0 0 True None))
             \<lparr>AppointmentDetail.Name := replicate 201 (CHR ''x'')\<rparr>)
          (seeded_world (replicate 20 (Some 0))))
     = Inl ErrAppointmentCreationFailed \<and>
   links (committed (snd (CreateAppointment NewAppointmentService Background 7
          ((Appointment.Detail (appointment_of 0 0 True None))
             \<lparr>AppointmentDetail.Name := replicate 201 (CHR ''x'')\<rparr>)
          (seeded_world (replicate 20 (Some 0))))))
     = [link_of 1 (CHR ''a'') 2 0] \<and>
   appointments (committed (snd (CreateAppointment NewAppointmentService Background 7
          ((Appointment.Detail (appointment_of 0 0 True None))
             \<lparr>AppointmentDetail.Name := replicate 201 (CHR ''x'')\<rparr>)
          (seeded_world (replicate 20 (Some 0))))))
     = [] \<and>
   fst (CreateForm Inr NewFormService Background 7
          \<lparr>FormDetail.Title = replicate 256 (CHR ''x''), SubmissionLimit = None,
           LimitPerUser = None, ClosesAt = None, PasswordHash = []\<rparr>
          (seeded_world (replicate 20 (Some 0))))
     = Inl ErrFormCreationFailed \<and>
   links (committed (snd (CreateForm Inr NewFormService Background 7
          \<lparr>FormDetail.Title = replicate 256 (CHR ''x''), SubmissionLimit = None,
           LimitPerUser = None, ClosesAt = None, PasswordHash = []\<rparr>
          (seeded_world (replicate 20 (Some 0))))))
     = [link_of 1 (CHR ''a'') 3 0] \<and>
   fst (CreateCard NewCardService Background 7
          \<lparr>FirstName = replicate 101 (CHR ''x''), LastName = ''Lovelace''\<rparr>
          (seeded_world (replicate 20 (Some 0))))
     = Inl ErrCardCreationFailed \<and>
   links (committed (snd (CreateCard NewCardService Background 7
          \<lparr>FirstName = replicate 101 (CHR ''x''), LastName = ''Lovelace''\<rparr>
          (seeded_world (replicate 20 (Some 0))))))
     = []"
  by code_simp

end
